theory Spec2Isabelle
  imports Complex_Main "HOL-Library.Sublist"
begin

section \<open>Flight schedule timeline: a model of \<^verbatim>\<open>flight_schedule.js\<close>\<close>

text \<open>
  The theory embeds the decision logic of \<^verbatim>\<open>src/app/static/js/flight_schedule.js\<close>.
  Conventions used throughout:
  \<^item> a JavaScript string is a \<open>string\<close> of ASCII characters; case mapping acts on the
    letters A-Z and a-z, white space is tab, line feed, vertical tab, form feed, carriage
    return and space;
  \<^item> the time value of a \<^verbatim>\<open>Date\<close> is an \<open>int\<close> of milliseconds since the epoch; \<^verbatim>\<open>null\<close>
    is \<open>None\<close>. The bound of 8.64e15 ms on time values is not modelled;
  \<^item> integers returned by \<^verbatim>\<open>parseInt\<close> are mathematical integers, \<^verbatim>\<open>NaN\<close> is \<open>None\<close>;
    quotients are exact, not rounded to a double;
  \<^item> the time zone of the browser is a parameter \<open>z\<close>: its two conversions between
    instants and local time values are what \<^verbatim>\<open>Date\<close> uses for local hours and days;
  \<^item> a \<^verbatim>\<open>TypeError\<close> raised by the JavaScript is the value \<open>Inl TypeError\<close>.
\<close>

subsection \<open>Strings\<close>

definition is_digit :: "char \<Rightarrow> bool" where
  "is_digit c = (c \<in> set ''0123456789'')"

definition is_space :: "char \<Rightarrow> bool" where
  "is_space c = (c \<in> set [CHR 0x09, CHR 0x0A, CHR 0x0B, CHR 0x0C, CHR 0x0D, CHR '' ''])"

definition lower_tab :: "(char \<times> char) list" where
  "lower_tab = zip ''ABCDEFGHIJKLMNOPQRSTUVWXYZ'' ''abcdefghijklmnopqrstuvwxyz''"

definition upper_tab :: "(char \<times> char) list" where
  "upper_tab = zip ''abcdefghijklmnopqrstuvwxyz'' ''ABCDEFGHIJKLMNOPQRSTUVWXYZ''"

definition char_lower :: "char \<Rightarrow> char" where
  "char_lower c = (case map_of lower_tab c of Some d \<Rightarrow> d | None \<Rightarrow> c)"

definition char_upper :: "char \<Rightarrow> char" where
  "char_upper c = (case map_of upper_tab c of Some d \<Rightarrow> d | None \<Rightarrow> c)"

text \<open>\<^verbatim>\<open>s.toLowerCase()\<close> and \<^verbatim>\<open>s.toUpperCase()\<close>.\<close>

definition toLowerCase :: "string \<Rightarrow> string" where
  "toLowerCase s = map char_lower s"

definition toUpperCase :: "string \<Rightarrow> string" where
  "toUpperCase s = map char_upper s"

text \<open>\<^verbatim>\<open>s.includes(t)\<close>: \<open>t\<close> occurs in \<open>s\<close> as a contiguous block.\<close>

fun str_includes :: "string \<Rightarrow> string \<Rightarrow> bool" where
  "str_includes [] t = (t = [])"
| "str_includes (c # cs) t = (prefix t (c # cs) \<or> str_includes cs t)"

text \<open>\<^verbatim>\<open>s.trim()\<close>.\<close>

definition trim :: "string \<Rightarrow> string" where
  "trim s = rev (dropWhile is_space (rev (dropWhile is_space s)))"

text \<open>Decimal value of a string of digits, most significant digit first.\<close>

definition digit_val :: "char \<Rightarrow> nat" where
  "digit_val c = (case map_of (zip ''0123456789'' [0, 1, 2, 3, 4, 5, 6, 7, 8, 9]) c of
                    Some d \<Rightarrow> d | None \<Rightarrow> 0)"

definition digits_val :: "string \<Rightarrow> nat" where
  "digits_val ds = foldl (\<lambda>acc c. 10 * acc + digit_val c) 0 ds"

text \<open>
  \<^verbatim>\<open>parseInt(s, 10)\<close>: leading white space is skipped, one sign is read, then the longest
  run of decimal digits; no digit gives \<^verbatim>\<open>NaN\<close>. What follows the digits is ignored.
\<close>

definition parseInt :: "string \<Rightarrow> int option" where
  "parseInt s =
     (let t = dropWhile is_space s;
          neg = (t \<noteq> [] \<and> hd t = CHR ''-'');
          u = (if t \<noteq> [] \<and> (hd t = CHR ''-'' \<or> hd t = CHR ''+'') then tl t else t);
          ds = takeWhile is_digit u
      in if ds = [] then None
         else Some (if neg then - int (digits_val ds) else int (digits_val ds)))"

subsection \<open>Status normaliser\<close>

text \<open>
  \<^verbatim>\<open>normaliseStatus(status)\<close>. The argument is \<open>None\<close> for \<^verbatim>\<open>null\<close>/\<^verbatim>\<open>undefined\<close>; the
  empty string is falsy as well.
\<close>

definition normaliseStatus :: "string option \<Rightarrow> string" where
  "normaliseStatus status =
     (case status of
        None \<Rightarrow> ''unknown''
      | Some st \<Rightarrow>
          if st = [] then ''unknown''
          else let s = toLowerCase st in
            if str_includes s ''planning'' then ''planning''
            else if str_includes s ''on blocks'' then ''onblocks''
            else if str_includes s ''off blocks'' then ''offblocks''
            else if str_includes s ''take off'' then ''takeoff''
            else if str_includes s ''landed'' then ''landed''
            else if str_includes s ''return to stand'' then ''returntostand''
            else if str_includes s ''divert'' then ''diverted''
            else ''unknown'')"

definition status_tokens :: "string list" where
  "status_tokens = [''planning'', ''onblocks'', ''offblocks'', ''takeoff'', ''landed'',
                    ''returntostand'', ''diverted'', ''unknown'']"

subsection \<open>Time resolver: rows to flights\<close>

text \<open>
  A row has the shape \<^verbatim>\<open>buildRowsFromDom\<close> gives it: every field is a string or
  \<^verbatim>\<open>null\<close>. Only the fields that decide the times, the lane and the status are kept;
  the passenger counts, the lists and the identifiers are copied through by the source
  and play no part below.
\<close>

record flight_row =
  row_reg :: "string option"
  row_dep :: "string option"
  row_ades :: "string option"
  std_nz :: "string option"
  sta_nz :: "string option"
  std_sched_nz :: "string option"
  sta_sched_nz :: "string option"
  dep_actual_nz :: "string option"
  arr_actual_nz :: "string option"
  block_mins :: "string option"
  flight_status :: "string option"

record flight =
  flight_id :: nat
  reg :: string
  dep :: string
  ades :: string
  stdEst :: "int option"
  staEst :: "int option"
  stdSched :: "int option"
  staSched :: "int option"
  depActual :: "int option"
  arrActual :: "int option"
  blockMins :: int
  statusRaw :: string
  statusNorm :: string

definition DEFAULT_BLOCK_MIN :: int where
  "DEFAULT_BLOCK_MIN = 60"

text \<open>
  \<^verbatim>\<open>parseDate(val)\<close>. The parser of \<^verbatim>\<open>new Date(string)\<close> belongs to the browser; it is
  the parameter \<open>dateOf\<close>, which gives the time value, or \<open>None\<close> for an invalid date.
\<close>

definition parseDate :: "(string \<Rightarrow> int option) \<Rightarrow> string option \<Rightarrow> int option" where
  "parseDate dateOf val =
     (case val of None \<Rightarrow> None | Some s \<Rightarrow> if s = [] then None else dateOf s)"

text \<open>\<^verbatim>\<open>a || b\<close> for \<open>a\<close> a \<^verbatim>\<open>Date\<close> or \<^verbatim>\<open>null\<close>: every \<^verbatim>\<open>Date\<close> object is truthy.\<close>

definition date_or :: "int option \<Rightarrow> int option \<Rightarrow> int option" where
  "date_or a b = (case a of Some x \<Rightarrow> Some x | None \<Rightarrow> b)"

text \<open>\<^verbatim>\<open>v || d\<close> for \<open>v\<close> a string or \<^verbatim>\<open>null\<close>: the empty string is falsy.\<close>

definition str_or :: "string option \<Rightarrow> string \<Rightarrow> string" where
  "str_or v d = (case v of None \<Rightarrow> d | Some s \<Rightarrow> if s = [] then d else s)"

text \<open>\<^verbatim>\<open>n || d\<close> for \<open>n\<close> a number: \<^verbatim>\<open>NaN\<close> and zero are falsy.\<close>

definition num_or :: "int option \<Rightarrow> int \<Rightarrow> int" where
  "num_or n d = (case n of None \<Rightarrow> d | Some k \<Rightarrow> if k = 0 then d else k)"

text \<open>The body of the \<^verbatim>\<open>map\<close> callback of \<^verbatim>\<open>buildFlightsFromRows\<close>.\<close>

definition buildFlight :: "(string \<Rightarrow> int option) \<Rightarrow> nat \<Rightarrow> flight_row \<Rightarrow> flight" where
  "buildFlight dateOf idx row =
     (let stdEst0 = parseDate dateOf (std_nz row);
          staEst0 = parseDate dateOf (sta_nz row);
          stdSched0 = parseDate dateOf (std_sched_nz row);
          staSched0 = parseDate dateOf (sta_sched_nz row);
          depActual0 = parseDate dateOf (dep_actual_nz row);
          arrActual0 = parseDate dateOf (arr_actual_nz row);
          block = num_or (parseInt (str_or (block_mins row) ''0'')) DEFAULT_BLOCK_MIN;
          barStart = date_or (date_or (date_or depActual0 stdEst0) stdSched0) None;
          barEnd0 = date_or (date_or (date_or arrActual0 staEst0) staSched0) None;
          barEnd = (case barEnd0 of
                      Some e \<Rightarrow> Some e
                    | None \<Rightarrow> (case barStart of
                                 Some s \<Rightarrow> Some (s + block * 60000)
                               | None \<Rightarrow> None))
      in \<lparr> flight_id = idx,
           reg = trim (toUpperCase (str_or (row_reg row) ''UNKNOWN'')),
           dep = toUpperCase (str_or (row_dep row) []),
           ades = toUpperCase (str_or (row_ades row) []),
           stdEst = barStart,
           staEst = barEnd,
           stdSched = stdSched0,
           staSched = staSched0,
           depActual = depActual0,
           arrActual = arrActual0,
           blockMins = block,
           statusRaw = str_or (flight_status row) [],
           statusNorm = normaliseStatus (flight_status row) \<rparr>)"

text \<open>\<^verbatim>\<open>buildFlightsFromRows(rows)\<close>: map with the index, then the filter on both bar times.\<close>

definition buildFlightsFromRows :: "(string \<Rightarrow> int option) \<Rightarrow> flight_row list \<Rightarrow> flight list" where
  "buildFlightsFromRows dateOf rows =
     filter (\<lambda>f. stdEst f \<noteq> None \<and> staEst f \<noteq> None)
       (map (\<lambda>(idx, row). buildFlight dateOf idx row) (enumerate 0 rows))"

subsection \<open>Timeline window and axis\<close>

datatype js_error = TypeError




text \<open>
  The time zone of the browser, as \<^verbatim>\<open>Date\<close> sees it: \<open>localOf\<close> gives the local time
  value of an instant (\<^verbatim>\<open>LocalTime\<close> of the language definition), \<open>utcOf\<close> the instant of
  a local time value (\<^verbatim>\<open>UTC\<close>). Which instant a repeated or skipped local time gets at a
  change of the offset is up to the zone.
\<close>

record zone =
  localOf :: "int \<Rightarrow> int"
  utcOf :: "int \<Rightarrow> int"

text \<open>\<^verbatim>\<open>startHour.setMinutes(0, 0, 0)\<close>: back to the start of the local hour.\<close>

definition start_of_hour :: "zone \<Rightarrow> int \<Rightarrow> int" where
  "start_of_hour z t = utcOf z (localOf z t - localOf z t mod 3600000)"

text \<open>
  \<^verbatim>\<open>t.setHours(t.getHours() + 1)\<close>: the local hour goes up by one, the local minutes,
  seconds and milliseconds stay.
\<close>

definition next_hour :: "zone \<Rightarrow> int \<Rightarrow> int" where
  "next_hour z t = utcOf z (localOf z t + 3600000)"

text \<open>
  The axis loop \<^verbatim>\<open>for (t = startHour; t <= chartEnd; t.setHours(t.getHours() + 1))\<close>:
  the instants at which a tick is drawn. \<open>None\<close> is a loop that does not end.
\<close>

partial_function (option) hour_ticks :: "zone \<Rightarrow> int \<Rightarrow> int \<Rightarrow> int list option" where
  "hour_ticks z t chartEnd =
     (if t \<le> chartEnd
      then Option.bind (hour_ticks z (next_hour z t) chartEnd) (\<lambda>ts. Some (t # ts))
      else Some [])"


record gantt =
  chartStart :: int
  chartEnd :: int
  durationMs :: int
  ticks :: "(int \<times> real option) list"



subsection \<open>JSON values\<close>

text \<open>
  A passenger record is a key/value bag read from JSON. Numbers are the integers; an
  object is the list of its own properties, each key once. A read of a property that
  is absent gives \<^verbatim>\<open>undefined\<close>. Objects inherit \<^verbatim>\<open>toString\<close> from
  \<^verbatim>\<open>Object.prototype\<close>.
\<close>

datatype jsval =
    JUndefined
  | JNull
  | JBool bool
  | JNum int
  | JStr string
  | JArr "jsval list"
  | JObj "(string \<times> jsval) list"

type_synonym jsobj = "(string \<times> jsval) list"

fun truthy :: "jsval \<Rightarrow> bool" where
  "truthy JUndefined = False"
| "truthy JNull = False"
| "truthy (JBool b) = b"
| "truthy (JNum n) = (n \<noteq> 0)"
| "truthy (JStr s) = (s \<noteq> [])"
| "truthy (JArr xs) = True"
| "truthy (JObj kvs) = True"

text \<open>\<^verbatim>\<open>p.k\<close> on an object \<open>p\<close>.\<close>

definition field :: "jsobj \<Rightarrow> string \<Rightarrow> jsval" where
  "field p k = (case map_of p k of Some v \<Rightarrow> v | None \<Rightarrow> JUndefined)"

text \<open>\<^verbatim>\<open>a || b || ... || last\<close>: the first truthy operand, else the last one.\<close>

fun first_truthy :: "jsval list \<Rightarrow> jsval \<Rightarrow> jsval" where
  "first_truthy [] dflt = dflt"
| "first_truthy (v # vs) dflt = (if truthy v then v else first_truthy vs dflt)"

text \<open>Decimal text of a number.\<close>

definition digit_char :: "nat \<Rightarrow> char" where
  "digit_char d = ''0123456789'' ! (d mod 10)"

fun show_nat :: "nat \<Rightarrow> string" where
  "show_nat n = (if n < 10 then [digit_char n] else show_nat (n div 10) @ [digit_char (n mod 10)])"

declare show_nat.simps [simp del]

definition show_int :: "int \<Rightarrow> string" where
  "show_int i = (if i < 0 then CHR ''-'' # show_nat (nat (- i)) else show_nat (nat i))"

fun join_with :: "string \<Rightarrow> string list \<Rightarrow> string" where
  "join_with sep [] = []"
| "join_with sep [x] = x"
| "join_with sep (x # y # ys) = x @ sep @ join_with sep (y # ys)"

text \<open>
  \<^verbatim>\<open>v.toString()\<close> for a value that has the method (not \<^verbatim>\<open>null\<close>, not \<^verbatim>\<open>undefined\<close>,
  for which the text of \<^verbatim>\<open>String(v)\<close> is given). An array joins its elements with
  commas, \<^verbatim>\<open>null\<close> and \<^verbatim>\<open>undefined\<close> elements giving the empty text.
\<close>

fun js_toString :: "jsval \<Rightarrow> string" where
  "js_toString JUndefined = ''undefined''"
| "js_toString JNull = ''null''"
| "js_toString (JBool b) = (if b then ''true'' else ''false'')"
| "js_toString (JNum n) = show_int n"
| "js_toString (JStr s) = s"
| "js_toString (JArr xs) =
     join_with '','' (map (\<lambda>x. if x = JNull \<or> x = JUndefined then [] else js_toString x) xs)"
| "js_toString (JObj kvs) = ''[object Object]''"

subsection \<open>Passenger classifier\<close>

text \<open>
  \<^verbatim>\<open>classifyPaxStatus(p)\<close>, with the tests in the order of the source; \<open>raw_status\<close> is
  its constant \<^verbatim>\<open>raw\<close>.
\<close>

definition raw_status :: "jsobj \<Rightarrow> string" where
  "raw_status p =
     toUpperCase (js_toString (first_truthy
       [field p ''DCSStatus'', field p ''DcsStatus'',
        field p ''Status'', field p ''status'',
        field p ''CheckInStatus'', field p ''checkInStatus'',
        field p ''BoardingStatus'', field p ''boardingStatus''] (JStr [])))"

definition classifyPaxStatus :: "jsobj \<Rightarrow> string" where
  "classifyPaxStatus p =
     (let raw = raw_status p;
          explicitFlown = (field p ''Flown'' = JBool True \<or> field p ''flown'' = JBool True)
      in if explicitFlown \<or> str_includes raw ''FLOWN'' \<or> raw = ''FLWN'' then ''FLOWN''
         else if field p ''Boarded'' = JBool True \<or> field p ''boarded'' = JBool True
           then ''BOARDED''
         else if field p ''CheckedIn'' = JBool True \<or> field p ''checkedIn'' = JBool True
           then ''CHECKED''
         else if raw = [] then ''BOOKED''
         else if str_includes raw ''FLOWN'' \<or> raw = ''FLWN'' then ''FLOWN''
         else if str_includes raw ''BOARD'' then ''BOARDED''
         else if str_includes raw ''CHECK'' then ''CHECKED''
         else if raw = ''CI'' \<or> raw = ''CKIN'' \<or> raw = ''CKI'' then ''CHECKED''
         else if raw = ''BD'' \<or> raw = ''BRD'' then ''BOARDED''
         else ''BOOKED'')"

subsection \<open>Seat map occupancy\<close>

text \<open>\<^verbatim>\<open>getField(obj, candidates, fallback)\<close>.\<close>

fun getField :: "jsobj \<Rightarrow> string list \<Rightarrow> jsval \<Rightarrow> jsval" where
  "getField obj [] fallback = fallback"
| "getField obj (c # cs) fallback =
     (if field obj c \<noteq> JUndefined \<and> field obj c \<noteq> JNull \<and> field obj c \<noteq> JStr []
      then field obj c else getField obj cs fallback)"

text \<open>
  \<^verbatim>\<open>s.Code\<close> on any value: reading a property of \<^verbatim>\<open>null\<close> or \<^verbatim>\<open>undefined\<close> raises; a
  string, number, boolean or array has no such property.
\<close>

definition get_prop :: "jsval \<Rightarrow> string \<Rightarrow> js_error + jsval" where
  "get_prop v k =
     (case v of
        JUndefined \<Rightarrow> Inl TypeError
      | JNull \<Rightarrow> Inl TypeError
      | JObj kvs \<Rightarrow> Inr (field kvs k)
      | _ \<Rightarrow> Inr JUndefined)"

text \<open>\<^verbatim>\<open>v.toUpperCase()\<close>: only a string has the method.\<close>

definition val_toUpperCase :: "jsval \<Rightarrow> js_error + string" where
  "val_toUpperCase v = (case v of JStr s \<Rightarrow> Inr (toUpperCase s) | _ \<Rightarrow> Inl TypeError)"

text \<open>\<^verbatim>\<open>(s.Code || s.code || "").toUpperCase()\<close>.\<close>

definition ssr_code :: "jsval \<Rightarrow> js_error + string" where
  "ssr_code s =
     (case get_prop s ''Code'' of
        Inl e \<Rightarrow> Inl e
      | Inr c1 \<Rightarrow>
          if truthy c1 then val_toUpperCase c1
          else (case get_prop s ''code'' of
                  Inl e \<Rightarrow> Inl e
                | Inr c2 \<Rightarrow> val_toUpperCase (if truthy c2 then c2 else JStr [])))"

text \<open>\<^verbatim>\<open>xs.some(f)\<close> with a callback that may raise: it stops at the first hit.\<close>

fun js_some :: "(jsval \<Rightarrow> js_error + bool) \<Rightarrow> jsval list \<Rightarrow> js_error + bool" where
  "js_some f [] = Inr False"
| "js_some f (x # xs) =
     (case f x of
        Inl e \<Rightarrow> Inl e
      | Inr hit \<Rightarrow> if hit then Inr True else js_some f xs)"

definition code_test :: "(string \<Rightarrow> bool) \<Rightarrow> jsval \<Rightarrow> js_error + bool" where
  "code_test P s = (case ssr_code s of Inl e \<Rightarrow> Inl e | Inr c \<Rightarrow> Inr (P c))"

definition hasUmnrSSR :: "jsval \<Rightarrow> js_error + bool" where
  "hasUmnrSSR ssrs =
     (case ssrs of
        JArr xs \<Rightarrow> js_some (code_test (\<lambda>c. c = ''UMNR'' \<or> c = ''UM'')) xs
      | _ \<Rightarrow> Inr False)"

definition hasInfantSSR :: "jsval \<Rightarrow> js_error + bool" where
  "hasInfantSSR ssrs =
     (case ssrs of
        JArr xs \<Rightarrow> js_some (code_test (\<lambda>c. c = ''INFT'' \<or> c = ''INF'')) xs
      | _ \<Rightarrow> Inr False)"

text \<open>The set \<^verbatim>\<open>SSR_SPECIAL\<close>.\<close>

definition SSR_SPECIAL :: "string list" where
  "SSR_SPECIAL = [''CKIN'', ''DEAF'', ''PETC'', ''VVIP'', ''UNZZ'', ''UMNR'']"

definition hasWheelchairSSR :: "jsval \<Rightarrow> js_error + bool" where
  "hasWheelchairSSR ssrs =
     (case ssrs of
        JArr xs \<Rightarrow> js_some (code_test (\<lambda>c. prefix ''WC'' c)) xs
      | _ \<Rightarrow> Inr False)"

definition hasSpecialSSR :: "jsval \<Rightarrow> js_error + bool" where
  "hasSpecialSSR ssrs =
     (case ssrs of
        JArr xs \<Rightarrow> js_some (code_test (\<lambda>c. c \<in> set SSR_SPECIAL)) xs
      | _ \<Rightarrow> Inr False)"

datatype seat_class = SeatChild | SeatAdultInfant | SeatAdult | SeatEmpty

text \<open>
  What \<^verbatim>\<open>makeSeat\<close> puts on a seat: the base colour, the mark of an unaccompanied
  minor, and the two icons.
\<close>

record seat_view =
  seatClass :: seat_class
  seatUmnr :: bool
  iconSpecial :: bool
  iconWheelchair :: bool

definition ssrsForSeat :: "jsobj \<Rightarrow> jsval" where
  "ssrsForSeat pax = getField pax [''Ssrs'', ''SSRs'', ''SpecialServiceRequests''] (JArr [])"

definition paxType :: "jsobj \<Rightarrow> js_error + string" where
  "paxType pax =
     val_toUpperCase
       (first_truthy [field pax ''PassengerType'', field pax ''passengerType''] (JStr []))"

text \<open>
  The base colour of an occupied seat, in the order in which the source evaluates: the
  list of service requests (\<^verbatim>\<open>ssrsForSeat\<close>, which cannot raise), the passenger type,
  the unaccompanied-minor test, then the branch.
\<close>

definition seat_class_of :: "jsobj \<Rightarrow> js_error + seat_class \<times> bool" where
  "seat_class_of pax =
     (case paxType pax of
        Inl e \<Rightarrow> Inl e
      | Inr ty \<Rightarrow>
          (case hasUmnrSSR (ssrsForSeat pax) of
             Inl e \<Rightarrow> Inl e
           | Inr isUmnr \<Rightarrow>
               if isUmnr \<or> ty = ''CH'' \<or> ty = ''CHD'' then Inr (SeatChild, isUmnr)
               else (case hasInfantSSR (ssrsForSeat pax) of
                       Inl e \<Rightarrow> Inl e
                     | Inr inft \<Rightarrow>
                         if inft then Inr (SeatAdultInfant, isUmnr)
                         else Inr (SeatAdult, isUmnr))))"

text \<open>
  The part of \<^verbatim>\<open>makeSeat\<close> that runs for an occupied seat: the base colour, then the
  icons, for which \<^verbatim>\<open>hasSpecialSSR\<close> and \<^verbatim>\<open>hasWheelchairSSR\<close> go through the same list
  of service requests. An error in any of the calls leaves the seat undrawn.
\<close>

definition occupied_seat :: "jsobj \<Rightarrow> js_error + seat_view" where
  "occupied_seat pax =
     (case seat_class_of pax of
        Inl e \<Rightarrow> Inl e
      | Inr (cls, isUmnr) \<Rightarrow>
          (case hasSpecialSSR (ssrsForSeat pax) of
             Inl e \<Rightarrow> Inl e
           | Inr sp \<Rightarrow>
               (case hasWheelchairSSR (ssrsForSeat pax) of
                  Inl e \<Rightarrow> Inl e
                | Inr wc \<Rightarrow>
                    Inr \<lparr> seatClass = cls, seatUmnr = isUmnr, iconSpecial = sp,
                          iconWheelchair = wc \<rparr>)))"


subsection \<open>Delay ledger: code validation\<close>

text \<open>
  The reference table \<^verbatim>\<open>DELAY_CODE_META\<close>, entry by entry in the order of the source.
  No key occurs twice. The dash in the description of code 74 is written as its three
  UTF-8 bytes.
\<close>

record delay_meta =
  meta_id :: int
  meta_description :: string

definition DELAY_CODE_META :: "(string \<times> delay_meta) list" where
  "DELAY_CODE_META = [
     (''81'', \<lparr> meta_id = 7, meta_description = ''ATFM due to ATC en-route demand capacity'' \<rparr>),
     (''11'', \<lparr> meta_id = 9, meta_description = ''Late check-in, acceptance after deadline'' \<rparr>),
     (''12'', \<lparr> meta_id = 10, meta_description = ''Late check-in, congestion in check-in'' \<rparr>),
     (''15'', \<lparr> meta_id = 14, meta_description = ''Boarding, discrepancies and paging, missing check-in passenger'' \<rparr>),
     (''16'', \<lparr> meta_id = 16, meta_description = ''Commercial publicity/passenger convenience, illness/death, VIP, Press, TV'' \<rparr>),
     (''17'', \<lparr> meta_id = 17, meta_description = ''Catering order, late or incorrect order given to supplier'' \<rparr>),
     (''18'', \<lparr> meta_id = 18, meta_description = ''Baggage Processing, sorting etc'' \<rparr>),
     (''21'', \<lparr> meta_id = 19, meta_description = ''Cargo documentation, errors'' \<rparr>),
     (''22'', \<lparr> meta_id = 20, meta_description = ''Late positioning of Cargo'' \<rparr>),
     (''23'', \<lparr> meta_id = 21, meta_description = ''Late acceptance of Cargo'' \<rparr>),
     (''24'', \<lparr> meta_id = 22, meta_description = ''Inadequate cargo packing and/or quantity'' \<rparr>),
     (''25'', \<lparr> meta_id = 23, meta_description = ''Oversells, cargo booking error'' \<rparr>),
     (''26'', \<lparr> meta_id = 24, meta_description = ''Late cargo preparation in warehouse'' \<rparr>),
     (''27'', \<lparr> meta_id = 25, meta_description = ''Mail documentation, errors'' \<rparr>),
     (''28'', \<lparr> meta_id = 26, meta_description = ''Late mail positioning'' \<rparr>),
     (''31'', \<lparr> meta_id = 27, meta_description = ''Aircraft documentation late/inaccurate (W&B, gen dec, pax manifest, etc.)'' \<rparr>),
     (''32'', \<lparr> meta_id = 28, meta_description = ''Loading / Unloading, bulky/special load, lack of loading staff'' \<rparr>),
     (''33'', \<lparr> meta_id = 29, meta_description = ''Loading equipment, lack of/or breakdown'' \<rparr>),
     (''34'', \<lparr> meta_id = 30, meta_description = ''Servicing equipment, lack of/or breakdown, lack of staff (e.g. steps)'' \<rparr>),
     (''35'', \<lparr> meta_id = 31, meta_description = ''Aircraft cleaning'' \<rparr>),
     (''36'', \<lparr> meta_id = 32, meta_description = ''Fuelling / defueling'' \<rparr>),
     (''37'', \<lparr> meta_id = 33, meta_description = ''Catering, late delivery or loading'' \<rparr>),
     (''38'', \<lparr> meta_id = 34, meta_description = ''ULD, lack of or serviceability'' \<rparr>),
     (''39'', \<lparr> meta_id = 35, meta_description = ''Technical equipment lack or breakdown'' \<rparr>),
     (''41'', \<lparr> meta_id = 36, meta_description = ''Aircraft defects'' \<rparr>),
     (''42'', \<lparr> meta_id = 37, meta_description = ''Scheduled maintenance, late release'' \<rparr>),
     (''43'', \<lparr> meta_id = 38, meta_description = ''Non scheduled maintenance, extra checks / additional work'' \<rparr>),
     (''44'', \<lparr> meta_id = 39, meta_description = ''Spares and maintenance equipment, lack of/or breakdown'' \<rparr>),
     (''45'', \<lparr> meta_id = 40, meta_description = ''AOG spares, to be carried to another station'' \<rparr>),
     (''46'', \<lparr> meta_id = 41, meta_description = ''Aircraft change for technical reasons within same fleet'' \<rparr>),
     (''47'', \<lparr> meta_id = 44, meta_description = ''Stand-by aircraft, lack of planned stand-by aircraft for technical reasons'' \<rparr>),
     (''51'', \<lparr> meta_id = 45, meta_description = ''Damage in flight ops (bird/lighting/turbulence/overweight landing/taxi collision)'' \<rparr>),
     (''52'', \<lparr> meta_id = 46, meta_description = ''Damage during ground operations, collision (other than during taxi)'' \<rparr>),
     (''55'', \<lparr> meta_id = 48, meta_description = ''Departure Control'' \<rparr>),
     (''56'', \<lparr> meta_id = 49, meta_description = ''Cargo preparation / documentation'' \<rparr>),
     (''57'', \<lparr> meta_id = 50, meta_description = ''Flight Plans'' \<rparr>),
     (''58'', \<lparr> meta_id = 51, meta_description = ''Other automated systems'' \<rparr>),
     (''61'', \<lparr> meta_id = 52, meta_description = ''Flight Plan, late completion / change, flight documentation'' \<rparr>),
     (''62'', \<lparr> meta_id = 53, meta_description = ''Operational requirements, fuel / load alteration'' \<rparr>),
     (''63'', \<lparr> meta_id = 56, meta_description = ''Late crew boarding / departure procedures (other than connection/stand-by)'' \<rparr>),
     (''71'', \<lparr> meta_id = 62, meta_description = ''Departure station below aircraft operating limits'' \<rparr>),
     (''72'', \<lparr> meta_id = 63, meta_description = ''Destination station below aircraft operating limits'' \<rparr>),
     (''73'', \<lparr> meta_id = 64, meta_description = ''Alternate station below aircraft operating limits'' \<rparr>),
     (''74'', \<lparr> meta_id = 65, meta_description = ''Enroute '' @ [CHR 0xE2, CHR 0x80, CHR 0x93] @ '' strong headwind, rerouting, weather avoidance'' \<rparr>),
     (''75'', \<lparr> meta_id = 66, meta_description = ''De-icing and de-snowing of aircraft'' \<rparr>),
     (''76'', \<lparr> meta_id = 67, meta_description = ''Removal of snow, ice, water and sand from airport'' \<rparr>),
     (''77'', \<lparr> meta_id = 68, meta_description = ''Ground handling impacted by adverse weather conditions'' \<rparr>),
     (''85'', \<lparr> meta_id = 88, meta_description = ''Restrictions at departure airport (closure, unrest, noise abatement, etc.)'' \<rparr>),
     (''86'', \<lparr> meta_id = 89, meta_description = ''Immigration, customs, health'' \<rparr>),
     (''87'', \<lparr> meta_id = 90, meta_description = ''Airport facilities, stands, ramp congestion, lighting, buildings, gate limits'' \<rparr>),
     (''88'', \<lparr> meta_id = 91, meta_description = ''Restrictions at destination airport, with or without ATFM'' \<rparr>),
     (''93'', \<lparr> meta_id = 92, meta_description = ''Aircraft rotation, late arrival from previous sector'' \<rparr>),
     (''99'', \<lparr> meta_id = 93, meta_description = ''Other reason, not matching any codes above'' \<rparr>),
     (''01'', \<lparr> meta_id = 94, meta_description = ''Planned schedule deviation for regular flights'' \<rparr>),
     (''02'', \<lparr> meta_id = 95, meta_description = ''Planned schedule deviation for charter flights'' \<rparr>),
     (''03'', \<lparr> meta_id = 96, meta_description = ''Late bus'' \<rparr>),
     (''13'', \<lparr> meta_id = 98, meta_description = ''Check-in error passenger and/or baggage'' \<rparr>),
     (''14'', \<lparr> meta_id = 99, meta_description = ''Oversales booking error'' \<rparr>),
     (''29'', \<lparr> meta_id = 101, meta_description = ''Late mail acceptance'' \<rparr>),
     (''48'', \<lparr> meta_id = 102, meta_description = ''Scheduled cabin configuration/version adjustments'' \<rparr>),
     (''59'', \<lparr> meta_id = 103, meta_description = ''Operational requirements; fuel or load alteration'' \<rparr>),
     (''60'', \<lparr> meta_id = 104, meta_description = ''Late crew boarding or departure procedures'' \<rparr>),
     (''64'', \<lparr> meta_id = 105, meta_description = ''Flight deck crew shortage/sickness/stand-by/FTL'' \<rparr>),
     (''65'', \<lparr> meta_id = 106, meta_description = ''Flight deck crew special request (non-operational)'' \<rparr>),
     (''66'', \<lparr> meta_id = 107, meta_description = ''Late cabin crew boarding/departure (not connections/stand-by)'' \<rparr>),
     (''82'', \<lparr> meta_id = 108, meta_description = ''ATFM due to ATC staff/equipment en-route, industrial action, staff shortage'' \<rparr>),
     (''83'', \<lparr> meta_id = 109, meta_description = ''ATFM due to restriction at destination airport'' \<rparr>),
     (''84'', \<lparr> meta_id = 110, meta_description = ''ATFM due to weather at destination'' \<rparr>),
     (''89'', \<lparr> meta_id = 111, meta_description = ''Restrictions at departure airport inc. ATS/start-up/pushback'' \<rparr>),
     (''91'', \<lparr> meta_id = 112, meta_description = ''Load connection, awaiting from another flight'' \<rparr>),
     (''92'', \<lparr> meta_id = 113, meta_description = ''Through check-in error passenger and baggage'' \<rparr>),
     (''94'', \<lparr> meta_id = 114, meta_description = ''Cabin crew rotation awaiting cabin crew from another flight'' \<rparr>),
     (''95'', \<lparr> meta_id = 115, meta_description = ''Crew rotation awaiting crew from another flight'' \<rparr>),
     (''96'', \<lparr> meta_id = 116, meta_description = ''Ops control re-routing, diversion, a/c change (non-technical)'' \<rparr>),
     (''97'', \<lparr> meta_id = 117, meta_description = ''Industrial action within own airline'' \<rparr>),
     (''98'', \<lparr> meta_id = 118, meta_description = ''Industrial action outside own airline, excluding ATC'' \<rparr>),
     (''67'', \<lparr> meta_id = 119, meta_description = ''Cabin crew shortage/sickness/stand-by/FTL'' \<rparr>)]"

text \<open>
  One table row of the delay dialog: the value of each input, \<open>None\<close> when the input
  element is missing from the row.
\<close>

record delay_row =
  codeInput :: "string option"
  minsInput :: "string option"
  remarkInput :: "string option"

record delay_entry =
  code :: string
  delayCodeId :: int
  delayMinutes :: int
  description :: string
  remark :: string
  isArrival :: bool

text \<open>\<^verbatim>\<open>code.replace(/\D/g, "")\<close> and the padding of a single digit.\<close>

definition normalise_code :: "string \<Rightarrow> string" where
  "normalise_code c =
     (let ds = filter is_digit c in if length ds = 1 then CHR ''0'' # ds else ds)"

text \<open>
  The callback of \<^verbatim>\<open>rows.forEach\<close> in \<^verbatim>\<open>collectDelaysFromModal\<close>; the state is the pair
  of the accepted entries and of the set of unknown codes, kept in insertion order.
\<close>

definition delay_step ::
  "bool \<Rightarrow> delay_entry list \<times> string list \<Rightarrow> delay_row \<Rightarrow> delay_entry list \<times> string list" where
  "delay_step arr acc tr =
     (case acc of (delays, unknownCodes) \<Rightarrow>
        (case codeInput tr of
           None \<Rightarrow> acc
         | Some cv \<Rightarrow>
             (case minsInput tr of
                None \<Rightarrow> acc
              | Some mv \<Rightarrow>
                  (let c0 = trim cv;
                       mins = parseInt (if mv = [] then ''0'' else mv);
                       rm = (case remarkInput tr of Some rv \<Rightarrow> trim rv | None \<Rightarrow> [])
                   in if c0 = [] \<and> (mins = None \<or> mins = Some 0) then acc
                      else if filter is_digit c0 = [] then acc
                      else (case mins of
                              None \<Rightarrow> acc
                            | Some m \<Rightarrow>
                                if m \<le> 0 then acc
                                else (case map_of DELAY_CODE_META (normalise_code c0) of
                                        None \<Rightarrow>
                                          (delays,
                                           if normalise_code c0 \<in> set unknownCodes
                                           then unknownCodes
                                           else unknownCodes @ [normalise_code c0])
                                      | Some meta \<Rightarrow>
                                          (delays @
                                             [\<lparr> code = normalise_code c0,
                                                delayCodeId = meta_id meta,
                                                delayMinutes = m,
                                                description = meta_description meta,
                                                remark = rm,
                                                isArrival = arr \<rparr>],
                                           unknownCodes)))))))"

text \<open>
  \<^verbatim>\<open>collectDelaysFromModal()\<close>: \<open>Inl\<close> is the \<^verbatim>\<open>null\<close> result, carrying the codes that the
  alert lists; \<open>Inr\<close> is the array of accepted entries.
\<close>

definition collectDelaysFromModal :: "bool \<Rightarrow> delay_row list \<Rightarrow> string list + delay_entry list" where
  "collectDelaysFromModal arr rows =
     (case foldl (delay_step arr) ([], []) rows of
        (delays, unknownCodes) \<Rightarrow> if unknownCodes \<noteq> [] then Inl unknownCodes else Inr delays)"

subsection \<open>Delay ledger: composed timestamps\<close>

text \<open>The test \<^verbatim>\<open>/^\d{1,2}:\d{2}$/\<close>.\<close>

definition is_hm :: "string \<Rightarrow> bool" where
  "is_hm v =
     ((length v = 4 \<and> is_digit (v ! 0) \<and> v ! 1 = CHR '':'' \<and> is_digit (v ! 2) \<and> is_digit (v ! 3))
      \<or> (length v = 5 \<and> is_digit (v ! 0) \<and> is_digit (v ! 1) \<and> v ! 2 = CHR '':''
          \<and> is_digit (v ! 3) \<and> is_digit (v ! 4)))"

text \<open>The test \<^verbatim>\<open>/^\d{4}-\d{2}-\d{2}$/\<close>.\<close>

definition is_ymd :: "string \<Rightarrow> bool" where
  "is_ymd v =
     (length v = 10 \<and> list_all is_digit (take 4 v) \<and> v ! 4 = CHR ''-''
      \<and> list_all is_digit (take 2 (drop 5 v)) \<and> v ! 7 = CHR ''-''
      \<and> list_all is_digit (drop 8 v))"

text \<open>
  \<^verbatim>\<open>getHm(id)\<close> and \<^verbatim>\<open>getDate(id)\<close>; the argument is the value of the element with that
  id, \<open>None\<close> when there is no such element.
\<close>

definition getHm :: "string option \<Rightarrow> string option" where
  "getHm el =
     (case el of
        None \<Rightarrow> None
      | Some x \<Rightarrow> (let v = trim x in if v \<noteq> [] \<and> is_hm v then Some v else None))"

definition getDate :: "string option \<Rightarrow> string option" where
  "getDate el =
     (case el of
        None \<Rightarrow> None
      | Some x \<Rightarrow> (let v = trim x in if v \<noteq> [] \<and> is_ymd v then Some v else None))"

text \<open>\<^verbatim>\<open>s.split(sep)\<close> for a separator of one character.\<close>

fun split_on :: "char \<Rightarrow> string \<Rightarrow> string list" where
  "split_on sep [] = [[]]"
| "split_on sep (c # cs) =
     (if c = sep then [] # split_on sep cs
      else (case split_on sep cs of
              [] \<Rightarrow> [[c]]
            | p # ps \<Rightarrow> (c # p) # ps))"

text \<open>
  \<^verbatim>\<open>Number(s)\<close> on the strings that reach it here, which are runs of decimal digits
  (\<^verbatim>\<open>getHm\<close> and \<^verbatim>\<open>getDate\<close> let nothing else through); the empty string is zero. Signs,
  fractions, exponents and other numeric literals are outside this fragment and are
  read as \<^verbatim>\<open>NaN\<close>.
\<close>

definition jsNumber :: "string \<Rightarrow> int option" where
  "jsNumber s =
     (if s = [] then Some 0
      else if list_all is_digit s then Some (int (digits_val s))
      else None)"

text \<open>
  \<^verbatim>\<open>parseTimeToMinutes(hhmm)\<close>, \<open>None\<close> being its \<^verbatim>\<open>null\<close>. For a text with no colon
  the source computes with \<^verbatim>\<open>undefined\<close> and gives \<^verbatim>\<open>NaN\<close>; \<^verbatim>\<open>getHm\<close> lets no such
  text through, and the model gives \<open>None\<close> there as well.
\<close>

definition parseTimeToMinutes :: "string option \<Rightarrow> int option" where
  "parseTimeToMinutes hhmm =
     (case hhmm of
        None \<Rightarrow> None
      | Some s \<Rightarrow>
          if s = [] then None
          else (case map jsNumber (split_on CHR '':'' s) of
                  Some h # Some m # _ \<Rightarrow> Some (h * 60 + m)
                | _ \<Rightarrow> None))"

text \<open>\<^verbatim>\<open>a % b\<close> for a positive \<open>b\<close>: the remainder has the sign of \<open>a\<close>.\<close>

definition js_rem :: "int \<Rightarrow> int \<Rightarrow> int" where
  "js_rem a b = (if a < 0 then - ((- a) mod b) else a mod b)"

text \<open>
  The text of a template hole: a number prints in decimal, \<^verbatim>\<open>NaN\<close> as \<open>NaN\<close>, a missing
  array element as \<open>undefined\<close>.
\<close>

definition num_text :: "int option option \<Rightarrow> string" where
  "num_text v =
     (case v of None \<Rightarrow> ''undefined'' | Some None \<Rightarrow> ''NaN'' | Some (Some n) \<Rightarrow> show_int n)"

text \<open>\<^verbatim>\<open>String(n).padStart(2, "0")\<close>.\<close>

definition pad2 :: "string \<Rightarrow> string" where
  "pad2 s = replicate (2 - length s) CHR ''0'' @ s"

definition nth_opt :: "'a list \<Rightarrow> nat \<Rightarrow> 'a option" where
  "nth_opt xs i = (if i < length xs then Some (xs ! i) else None)"

text \<open>\<^verbatim>\<open>datePlusMinutesToLocalIso(dateStr, minutes)\<close>.\<close>

definition datePlusMinutesToLocalIso :: "string option \<Rightarrow> int option \<Rightarrow> string option" where
  "datePlusMinutesToLocalIso dateStr minutes =
     (case dateStr of
        None \<Rightarrow> None
      | Some ds \<Rightarrow>
          if ds = [] then None
          else (case minutes of
                  None \<Rightarrow> None
                | Some mins \<Rightarrow>
                    (let parts = map jsNumber (split_on CHR ''-'' ds);
                         y = nth_opt parts 0;
                         mo = nth_opt parts 1;
                         d = nth_opt parts 2;
                         h = mins div 60;
                         m = js_rem mins 60
                     in Some (num_text y @ ''-'' @ pad2 (num_text mo) @ ''-'' @ pad2 (num_text d)
                              @ ''T'' @ pad2 (show_int h) @ '':'' @ pad2 (show_int m)))))"

text \<open>
  The inputs of the time dialog (the value of each element, \<open>None\<close> when the element
  is missing) and the time part of the payload. The fields that
  \<^verbatim>\<open>collectTimeModalPayload\<close> copies from the current flight are left out.
\<close>

record time_inputs =
  in_dep_date :: "string option"
  in_time_etd :: "string option"
  in_time_offblocks :: "string option"
  in_time_airborne :: "string option"
  in_arr_date :: "string option"
  in_time_eta :: "string option"
  in_time_landing :: "string option"
  in_time_onchocks :: "string option"

record time_payload =
  mode :: string
  delays :: "delay_entry list"
  etd :: "string option"
  offblocks :: "string option"
  airborne :: "string option"
  eta :: "string option"
  landing :: "string option"
  onchocks :: "string option"
  dep_date :: "string option"
  arr_date :: "string option"
  etd_local :: "string option"
  offblocks_local :: "string option"
  airborne_local :: "string option"
  eta_local :: "string option"
  landing_local :: "string option"
  onblocks_local :: "string option"

text \<open>The minutes that the departure branch passes on for the airborne time.\<close>

definition airborne_minutes :: "int option \<Rightarrow> int option \<Rightarrow> int option" where
  "airborne_minutes airMinutes offMinutes =
     (case airMinutes of
        None \<Rightarrow> None
      | Some a \<Rightarrow>
          (case offMinutes of
             None \<Rightarrow> None
           | Some off \<Rightarrow> Some (if a < off then a + 24 * 60 else a)))"

text \<open>The minutes that the arrival branch passes on for the landing time.\<close>

definition landing_minutes :: "int option \<Rightarrow> int option \<Rightarrow> int option" where
  "landing_minutes landMinutes onMinutes =
     (case landMinutes of
        None \<Rightarrow> None
      | Some l \<Rightarrow>
          (case onMinutes of
             None \<Rightarrow> Some l
           | Some on \<Rightarrow> Some (if l > on then l - 24 * 60 else l)))"

text \<open>
  \<^verbatim>\<open>collectTimeModalPayload()\<close>; \<open>None\<close> is the \<^verbatim>\<open>null\<close> result. In the departure branch
  the airborne text stays \<^verbatim>\<open>null\<close> unless both the airborne and the off-blocks minutes
  are there.
\<close>

definition collectTimeModalPayload ::
  "flight option \<Rightarrow> string option \<Rightarrow> delay_row list \<Rightarrow> time_inputs \<Rightarrow> time_payload option" where
  "collectTimeModalPayload currentFlight currentTimeMode rows ins =
     (if currentFlight = None \<or> currentTimeMode = None \<or> currentTimeMode = Some [] then None
      else (case collectDelaysFromModal (currentTimeMode = Some ''arr'') rows of
              Inl unknownCodes \<Rightarrow> None
            | Inr ds \<Rightarrow>
                if currentTimeMode = Some ''dep'' then
                  (let depDate = getDate (in_dep_date ins);
                       etdHm = getHm (in_time_etd ins);
                       offHm = getHm (in_time_offblocks ins);
                       airHm = getHm (in_time_airborne ins);
                       etdMinutes = parseTimeToMinutes etdHm;
                       offMinutes = parseTimeToMinutes offHm;
                       airMinutes = parseTimeToMinutes airHm
                   in Some \<lparr> mode = ''dep'', delays = ds,
                              etd = etdHm, offblocks = offHm, airborne = airHm,
                              eta = None, landing = None, onchocks = None,
                              dep_date = depDate, arr_date = None,
                              etd_local = datePlusMinutesToLocalIso depDate etdMinutes,
                              offblocks_local = datePlusMinutesToLocalIso depDate offMinutes,
                              airborne_local =
                                (case airborne_minutes airMinutes offMinutes of
                                   None \<Rightarrow> None
                                 | Some a \<Rightarrow> datePlusMinutesToLocalIso depDate (Some a)),
                              eta_local = None, landing_local = None,
                              onblocks_local = None \<rparr>)
                else
                  (let arrDate = getDate (in_arr_date ins);
                       etaHm = getHm (in_time_eta ins);
                       landHm = getHm (in_time_landing ins);
                       onHm = getHm (in_time_onchocks ins);
                       etaMinutes = parseTimeToMinutes etaHm;
                       onMinutes = parseTimeToMinutes onHm;
                       landMinutes = parseTimeToMinutes landHm
                   in Some \<lparr> mode = (case currentTimeMode of None \<Rightarrow> [] | Some md \<Rightarrow> md),
                              delays = ds,
                              etd = None, offblocks = None, airborne = None,
                              eta = etaHm, landing = landHm, onchocks = onHm,
                              dep_date = None, arr_date = arrDate,
                              etd_local = None, offblocks_local = None,
                              airborne_local = None,
                              eta_local = datePlusMinutesToLocalIso arrDate etaMinutes,
                              landing_local =
                                datePlusMinutesToLocalIso arrDate
                                  (landing_minutes landMinutes onMinutes),
                              onblocks_local = datePlusMinutesToLocalIso arrDate onMinutes \<rparr>)))"

subsection \<open>Delay ledger: required delay\<close>

text \<open>
  \<^verbatim>\<open>minutesBetween(t1, t2)\<close>; \<^verbatim>\<open>Math.round\<close> takes the nearest integer, a half going up.
\<close>

definition minutesBetween :: "int option \<Rightarrow> int option \<Rightarrow> int" where
  "minutesBetween t1 t2 =
     (case t1 of
        None \<Rightarrow> 0
      | Some a \<Rightarrow> (case t2 of None \<Rightarrow> 0 | Some b \<Rightarrow> (b - a + 30000) div 60000))"

text \<open>
  \<^verbatim>\<open>d.setHours(h, mi, 0, 0)\<close>: the local day of \<open>d\<close> is kept, the local time of day is
  set, and the local time value is turned back into an instant.
\<close>

definition setHours :: "zone \<Rightarrow> int \<Rightarrow> int \<Rightarrow> int \<Rightarrow> int" where
  "setHours z d h mi =
     utcOf z (localOf z d - localOf z d mod 86400000 + h * 3600000 + mi * 60000)"

text \<open>
  The first match of \<^verbatim>\<open>/(\d{1,2}):(\d{2})/\<close> in a string: at each position two digits
  are tried before one.
\<close>

definition hm_at :: "string \<Rightarrow> (string \<times> string) option" where
  "hm_at s =
     (if 5 \<le> length s \<and> is_digit (s ! 0) \<and> is_digit (s ! 1) \<and> s ! 2 = CHR '':''
         \<and> is_digit (s ! 3) \<and> is_digit (s ! 4)
      then Some (take 2 s, take 2 (drop 3 s))
      else if 4 \<le> length s \<and> is_digit (s ! 0) \<and> s ! 1 = CHR '':''
         \<and> is_digit (s ! 2) \<and> is_digit (s ! 3)
      then Some (take 1 s, take 2 (drop 2 s))
      else None)"

fun hm_search :: "string \<Rightarrow> (string \<times> string) option" where
  "hm_search [] = None"
| "hm_search (c # cs) =
     (case hm_at (c # cs) of Some r \<Rightarrow> Some r | None \<Rightarrow> hm_search cs)"

record input_el =
  el_value :: string
  el_attr :: "string option"

text \<open>
  \<^verbatim>\<open>timeInputToDate(inputEl)\<close> of the departure dialog, for a flight with scheduled
  departure \<open>sched\<close>. The two groups of a match are digits, so both \<^verbatim>\<open>parseInt\<close> calls
  give a number.
\<close>

definition timeInputToDate :: "zone \<Rightarrow> int option \<Rightarrow> input_el option \<Rightarrow> int option" where
  "timeInputToDate z sched inputEl =
     (case sched of
        None \<Rightarrow> None
      | Some sd \<Rightarrow>
          (case inputEl of
             None \<Rightarrow> None
           | Some el \<Rightarrow>
               (let raw = (if el_value el \<noteq> [] then el_value el
                           else (case el_attr el of None \<Rightarrow> [] | Some a \<Rightarrow> a))
                in case hm_search raw of
                     None \<Rightarrow> None
                   | Some (hs, ms) \<Rightarrow>
                       (case parseInt hs of
                          None \<Rightarrow> None
                        | Some h \<Rightarrow>
                            (case parseInt ms of
                               None \<Rightarrow> None
                             | Some mi \<Rightarrow> Some (setHours z sd h mi))))))"

text \<open>
  What the dialog shows after an update: whether the delay section is visible, and the
  number written to the required-delay element.
\<close>

record delay_view =
  sectionShown :: bool
  delayRequired :: int

definition no_delay :: delay_view where
  "no_delay = \<lparr> sectionShown = False, delayRequired = 0 \<rparr>"

text \<open>\<^verbatim>\<open>updateDelayDep()\<close>.\<close>

definition updateDelayDep :: "zone \<Rightarrow> int option \<Rightarrow> input_el option \<Rightarrow> delay_view" where
  "updateDelayDep z sched offInput =
     (case sched of
        None \<Rightarrow> no_delay
      | Some sd \<Rightarrow>
          (case timeInputToDate z sched offInput of
             None \<Rightarrow> no_delay
           | Some offDt \<Rightarrow>
               (let delayMins0 = minutesBetween sched (Some offDt);
                    delayMins = (if delayMins0 < 0 then 0 else delayMins0)
                in if delayMins > 15
                   then \<lparr> sectionShown = True, delayRequired = delayMins \<rparr>
                   else no_delay)))"

text \<open>
  \<^verbatim>\<open>updateDelayArr()\<close>. When a part of the entered text is not a number the date is
  invalid, the difference is \<^verbatim>\<open>NaN\<close> and the comparison with 15 is false.
\<close>

definition updateDelayArr :: "zone \<Rightarrow> int option \<Rightarrow> string option \<Rightarrow> delay_view" where
  "updateDelayArr z sched etaInput =
     (let etaVal = (case etaInput of None \<Rightarrow> [] | Some v \<Rightarrow> v)
      in case sched of
           None \<Rightarrow> no_delay
         | Some sta \<Rightarrow>
             if etaVal = [] then no_delay
             else (let parts = split_on CHR '':'' etaVal;
                       h = parseInt (hd parts);
                       m = (case nth_opt parts 1 of None \<Rightarrow> None | Some ms \<Rightarrow> parseInt ms)
                   in case h of
                        None \<Rightarrow> no_delay
                      | Some hh \<Rightarrow>
                          (case m of
                             None \<Rightarrow> no_delay
                           | Some mm \<Rightarrow>
                               (let diff = minutesBetween sched (Some (setHours z sta hh mm))
                                in if \<bar>diff\<bar> > 15
                                   then \<lparr> sectionShown = True, delayRequired = diff \<rparr>
                                   else no_delay))))"

subsection \<open>Notions of the specification\<close>

text \<open>
  The definitions of this part follow the words of the specification; the theorems
  compare them with the functions above.
\<close>

text \<open>The ordered keyword list of the status normaliser: keyword, then state.\<close>

definition status_rules :: "(string \<times> string) list" where
  "status_rules =
     [(''planning'', ''planning''), (''on blocks'', ''onblocks''),
      (''off blocks'', ''offblocks''), (''take off'', ''takeoff''),
      (''landed'', ''landed''), (''return to stand'', ''returntostand''),
      (''divert'', ''diverted'')]"

text \<open>First match wins; no match is \<open>unknown\<close>.\<close>

fun first_match :: "string \<Rightarrow> (string \<times> string) list \<Rightarrow> string" where
  "first_match s [] = ''unknown''"
| "first_match s ((k, v) # rules) = (if str_includes s k then v else first_match s rules)"

text \<open>First non-null wins.\<close>

fun first_present :: "int option list \<Rightarrow> int option" where
  "first_present [] = None"
| "first_present (None # xs) = first_present xs"
| "first_present (Some x # xs) = Some x"

text \<open>Display start and display end of a row by the precedence actual, estimated, scheduled.\<close>

definition display_start :: "(string \<Rightarrow> int option) \<Rightarrow> flight_row \<Rightarrow> int option" where
  "display_start dateOf row =
     first_present [parseDate dateOf (dep_actual_nz row), parseDate dateOf (std_nz row),
                    parseDate dateOf (std_sched_nz row)]"

definition display_end :: "(string \<Rightarrow> int option) \<Rightarrow> flight_row \<Rightarrow> int option" where
  "display_end dateOf row =
     first_present [parseDate dateOf (arr_actual_nz row), parseDate dateOf (sta_nz row),
                    parseDate dateOf (sta_sched_nz row)]"

text \<open>The block minutes of a row: the parsed field, 60 when it is absent or not a number.\<close>

definition block_minutes :: "flight_row \<Rightarrow> int" where
  "block_minutes row =
     (case block_mins row of
        None \<Rightarrow> 60
      | Some b \<Rightarrow> (case parseInt b of None \<Rightarrow> 60 | Some n \<Rightarrow> if n = 0 then 60 else n))"







text \<open>
  A delay row that reaches the table lookup, with its normalised code, its minutes and
  its remark: it has a digit in its code and a positive number of minutes.
\<close>

definition surviving :: "delay_row \<Rightarrow> (string \<times> int \<times> string) option" where
  "surviving tr =
     (case codeInput tr of
        None \<Rightarrow> None
      | Some cv \<Rightarrow>
          (case minsInput tr of
             None \<Rightarrow> None
           | Some mv \<Rightarrow>
               (case parseInt mv of
                  None \<Rightarrow> None
                | Some m \<Rightarrow>
                    if 0 < m \<and> filter is_digit cv \<noteq> []
                    then Some (normalise_code cv, m,
                               (case remarkInput tr of None \<Rightarrow> [] | Some rv \<Rightarrow> trim rv))
                    else None)))"

definition known_code :: "string \<Rightarrow> bool" where
  "known_code c = (map_of DELAY_CODE_META c \<noteq> None)"

text \<open>A surviving row with the identifier and the description of the table.\<close>

definition enrich :: "bool \<Rightarrow> string \<times> int \<times> string \<Rightarrow> delay_entry" where
  "enrich arr r =
     (case r of (c, m, rm) \<Rightarrow>
        (case map_of DELAY_CODE_META c of
           None \<Rightarrow> \<lparr> code = c, delayCodeId = 0, delayMinutes = m, description = [],
                      remark = rm, isArrival = arr \<rparr>
         | Some meta \<Rightarrow> \<lparr> code = c, delayCodeId = meta_id meta, delayMinutes = m,
                           description = meta_description meta, remark = rm,
                           isArrival = arr \<rparr>))"

text \<open>Adding codes to the set of unknown codes, in insertion order.\<close>

definition add_code :: "string list \<Rightarrow> string \<Rightarrow> string list" where
  "add_code us c = (if c \<in> set us then us else us @ [c])"

text \<open>A boolean flag of a passenger record under either spelling of its key.\<close>

definition flag_set :: "jsobj \<Rightarrow> string \<Rightarrow> string \<Rightarrow> bool" where
  "flag_set p k1 k2 = (field p k1 = JBool True \<or> field p k2 = JBool True)"

text \<open>The status text says flown.\<close>

definition says_flown :: "jsobj \<Rightarrow> bool" where
  "says_flown p = (str_includes (raw_status p) ''FLOWN'' \<or> raw_status p = ''FLWN'')"

text \<open>The keys under which the status text is looked for.\<close>

definition status_keys :: "string list" where
  "status_keys = [''DCSStatus'', ''DcsStatus'', ''Status'', ''status'', ''CheckInStatus'',
                  ''checkInStatus'', ''BoardingStatus'', ''boardingStatus'']"



text \<open>A delay row whose minutes are missing, not a number, zero or negative.\<close>

definition no_positive_minutes :: "delay_row \<Rightarrow> bool" where
  "no_positive_minutes tr =
     (case minsInput tr of
        None \<Rightarrow> True
      | Some mv \<Rightarrow> (case parseInt mv of None \<Rightarrow> True | Some m \<Rightarrow> m \<le> 0))"

text \<open>A delay row with no code text.\<close>

definition no_code :: "delay_row \<Rightarrow> bool" where
  "no_code tr = (case codeInput tr of None \<Rightarrow> True | Some cv \<Rightarrow> trim cv = [])"

text \<open>A delay row whose code text has no digit.\<close>

definition no_digit_code :: "delay_row \<Rightarrow> bool" where
  "no_digit_code tr =
     (case codeInput tr of None \<Rightarrow> True | Some cv \<Rightarrow> filter is_digit cv = [])"



subsection \<open>Example data\<close>

text \<open>
  A date parser that knows the instants of the examples (UTC, 8 December 2025), and
  rows built from them. The examples are run in the zone of UTC.
\<close>

definition utc_zone :: zone where
  "utc_zone = \<lparr> localOf = (\<lambda>t. t), utcOf = (\<lambda>l. l) \<rparr>"

text \<open>
  A zone around one change of its offset: 13 hours ahead of UTC before the instant
  2026-04-04T14:00Z, 12 hours from then on, as in New Zealand at the end of summer time.
  A local time that occurs twice is taken at its first occurrence.
\<close>

definition auckland_zone :: zone where
  "auckland_zone =
     \<lparr> localOf = (\<lambda>t. if t < 1775311200000 then t + 46800000 else t + 43200000),
       utcOf = (\<lambda>l. if l - 46800000 < 1775311200000 then l - 46800000 else l - 43200000) \<rparr>"

definition example_dateOf :: "string \<Rightarrow> int option" where
  "example_dateOf =
     map_of [(''2025-12-08T08:00:00Z'', 1765180800000),
             (''2025-12-08T08:10:00Z'', 1765181400000),
             (''2025-12-08T09:00:00Z'', 1765184400000),
             (''2025-12-08T09:30:00Z'', 1765186200000),
             (''2025-12-08T10:00:00Z'', 1765188000000),
             (''2025-12-08T11:00:00Z'', 1765191600000)]"

definition blank_row :: flight_row where
  "blank_row =
     \<lparr> row_reg = None, row_dep = None, row_ades = None, std_nz = None, sta_nz = None,
       std_sched_nz = None, sta_sched_nz = None, dep_actual_nz = None,
       arr_actual_nz = None, block_mins = None, flight_status = None \<rparr>"

definition row_sched_only :: flight_row where
  "row_sched_only =
     blank_row \<lparr> std_sched_nz := Some ''2025-12-08T08:00:00Z'',
                 sta_sched_nz := Some ''2025-12-08T09:30:00Z'' \<rparr>"

definition row_actual_dep :: flight_row where
  "row_actual_dep =
     blank_row \<lparr> dep_actual_nz := Some ''2025-12-08T08:10:00Z'',
                 std_sched_nz := Some ''2025-12-08T08:00:00Z'',
                 block_mins := Some ''n/a'' \<rparr>"

definition row_arrival_only :: flight_row where
  "row_arrival_only = blank_row \<lparr> sta_nz := Some ''2025-12-08T09:30:00Z'' \<rparr>"




definition example_flight :: flight where
  "example_flight = buildFlight example_dateOf 0 row_sched_only"

definition arr_inputs :: time_inputs where
  "arr_inputs =
     \<lparr> in_dep_date = None, in_time_etd = None, in_time_offblocks = None,
       in_time_airborne = None, in_arr_date = Some ''2025-12-08'',
       in_time_eta = Some ''00:10'', in_time_landing = Some ''23:50'',
       in_time_onchocks = Some ''00:05'' \<rparr>"

definition dep_inputs :: time_inputs where
  "dep_inputs =
     \<lparr> in_dep_date = Some ''2025-12-08'', in_time_etd = Some ''23:50'',
       in_time_offblocks = Some ''23:55'', in_time_airborne = Some ''00:05'',
       in_arr_date = None, in_time_eta = None, in_time_landing = None,
       in_time_onchocks = None \<rparr>"

section \<open>Shared lemmas\<close>

lemma char_lower_upper: "char_lower (char_upper c) = char_lower c"
proof (cases "map_of upper_tab c")
  case None
  then show ?thesis by (simp add: char_upper_def)
next
  case (Some d)
  then have "(c, d) \<in> set upper_tab" by (rule map_of_SomeD)
  then show ?thesis
    by (auto simp: upper_tab_def char_upper_def char_lower_def lower_tab_def)
qed

lemma toLowerCase_toUpperCase: "toLowerCase (toUpperCase s) = toLowerCase s"
  by (simp add: toLowerCase_def toUpperCase_def char_lower_upper)

lemma toUpperCase_Nil_iff: "toUpperCase s = [] \<longleftrightarrow> s = []"
  by (simp add: toUpperCase_def)

lemma str_includes_sublist: "str_includes s t \<longleftrightarrow> sublist t s"
  by (induction s) (auto simp: sublist_Cons_right)

section \<open>Status normaliser\<close>

lemma normaliseStatus_range: "normaliseStatus st \<in> set status_tokens"
  by (simp add: normaliseStatus_def status_tokens_def Let_def split: option.split)

lemma normaliseStatus_tokens:
  "normaliseStatus (Some ''planning'') = ''planning''"
  "normaliseStatus (Some ''onblocks'') = ''unknown''"
  "normaliseStatus (Some ''offblocks'') = ''unknown''"
  "normaliseStatus (Some ''takeoff'') = ''unknown''"
  "normaliseStatus (Some ''landed'') = ''landed''"
  "normaliseStatus (Some ''returntostand'') = ''unknown''"
  "normaliseStatus (Some ''diverted'') = ''diverted''"
  "normaliseStatus (Some ''unknown'') = ''unknown''"
  by (simp_all add: normaliseStatus_def toLowerCase_def char_lower_def lower_tab_def)

lemma normaliseStatus_again:
  "normaliseStatus (Some (normaliseStatus st)) =
     (if normaliseStatus st \<in> {''planning'', ''landed'', ''diverted''}
      then normaliseStatus st else ''unknown'')"
proof -
  have "normaliseStatus st \<in> set status_tokens" by (rule normaliseStatus_range)
  then consider "normaliseStatus st = ''planning''" | "normaliseStatus st = ''onblocks''"
    | "normaliseStatus st = ''offblocks''" | "normaliseStatus st = ''takeoff''"
    | "normaliseStatus st = ''landed''" | "normaliseStatus st = ''returntostand''"
    | "normaliseStatus st = ''diverted''" | "normaliseStatus st = ''unknown''"
    by (auto simp: status_tokens_def)
  then show ?thesis
    by cases (simp_all add: normaliseStatus_tokens)
qed

lemma normaliseStatus_rules:
  "normaliseStatus (Some s) =
     (if s = [] then ''unknown'' else first_match (toLowerCase s) status_rules)"
  by (simp add: normaliseStatus_def status_rules_def Let_def)

lemma normaliseStatus_upper: "normaliseStatus (Some (toUpperCase s)) = normaliseStatus (Some s)"
  by (simp only: normaliseStatus_rules toLowerCase_toUpperCase toUpperCase_Nil_iff)

text \<open>
  Claim C5, as amended. Status normalisation is total: every input, absent, empty or
  any string, maps to exactly one of eight tokens, the seven states \<open>planning\<close>,
  \<open>onblocks\<close>, \<open>offblocks\<close>, \<open>takeoff\<close>, \<open>landed\<close>, \<open>returntostand\<close>, \<open>diverted\<close> and
  the token \<open>unknown\<close>. The match is by substring on the lower-cased text, so the case
  of the input does not matter, against the ordered keyword list; the first match wins
  and no match or an empty input gives \<open>unknown\<close>. Applied to its own output the
  function returns that output only for \<open>planning\<close>, \<open>landed\<close>, \<open>diverted\<close> and
  \<open>unknown\<close>; the outputs \<open>onblocks\<close>, \<open>offblocks\<close>, \<open>takeoff\<close> and \<open>returntostand\<close>
  do not contain their keyword and go to \<open>unknown\<close>.
\<close>

theorem normaliseStatus_total_first_match:
  "normaliseStatus st \<in> set status_tokens
   \<and> normaliseStatus None = ''unknown''
   \<and> normaliseStatus (Some s) =
       (if s = [] then ''unknown'' else first_match (toLowerCase s) status_rules)
   \<and> normaliseStatus (Some (toUpperCase s)) = normaliseStatus (Some s)
   \<and> normaliseStatus (Some (normaliseStatus st)) =
       (if normaliseStatus st \<in> {''planning'', ''landed'', ''diverted''}
        then normaliseStatus st else ''unknown'')"
proof -
  have "normaliseStatus None = ''unknown''"
    by (simp add: normaliseStatus_def)
  then show ?thesis
    using normaliseStatus_range [of st] normaliseStatus_rules [of s]
      normaliseStatus_upper [of s] normaliseStatus_again [of st]
    by blast
qed

theorem normaliseStatus_total_first_match_witness:
  "normaliseStatus (Some ''Off Blocks 10:02'') \<in> set status_tokens
   \<and> normaliseStatus (Some ''Take Off'') = first_match ''take off'' status_rules
   \<and> normaliseStatus (Some ''Take Off'') = ''takeoff''
   \<and> normaliseStatus (Some ''TAKE OFF'') = ''takeoff''
   \<and> normaliseStatus (Some (normaliseStatus (Some ''Off Blocks 10:02''))) = ''unknown''"
  using normaliseStatus_total_first_match [of "Some ''Off Blocks 10:02''" "''Take Off''"]
  by (simp add: normaliseStatus_def toLowerCase_def toUpperCase_def char_lower_def
      char_upper_def lower_tab_def upper_tab_def status_rules_def)

text \<open>
  Claim C5 as stated fails: the status text \<open>On Blocks\<close> is normalised to \<open>onblocks\<close>,
  and \<open>onblocks\<close> is normalised to \<open>unknown\<close>.
\<close>

theorem normaliseStatus_not_idempotent:
  "normaliseStatus (Some ''On Blocks'') = ''onblocks''
   \<and> normaliseStatus (Some (normaliseStatus (Some ''On Blocks''))) = ''unknown''
   \<and> normaliseStatus (Some (normaliseStatus (Some ''On Blocks'')))
       \<noteq> normaliseStatus (Some ''On Blocks'')"
  by (simp add: normaliseStatus_def toLowerCase_def char_lower_def lower_tab_def)

section \<open>Time resolver\<close>

lemma date_or_first_present: "date_or (date_or (date_or a b) c) None = first_present [a, b, c]"
  by (cases a; cases b; cases c) (simp_all add: date_or_def)

lemma buildFlight_stdEst: "stdEst (buildFlight dateOf idx row) = display_start dateOf row"
  by (simp add: buildFlight_def Let_def display_start_def date_or_first_present)

lemma parseInt_zero: "parseInt ''0'' = Some 0"
  by (simp add: parseInt_def is_space_def is_digit_def digits_val_def digit_val_def)

lemma parseInt_Nil: "parseInt [] = None"
  by (simp add: parseInt_def)

lemma buildFlight_blockMins: "blockMins (buildFlight dateOf idx row) = block_minutes row"
  by (simp add: buildFlight_def Let_def block_minutes_def num_or_def str_or_def
      DEFAULT_BLOCK_MIN_def parseInt_zero parseInt_Nil split: option.split)

lemma buildFlight_staEst:
  "staEst (buildFlight dateOf idx row) =
     (case display_end dateOf row of
        Some e \<Rightarrow> Some e
      | None \<Rightarrow> (case display_start dateOf row of
                   Some s \<Rightarrow> Some (s + block_minutes row * 60000)
                 | None \<Rightarrow> None))"
proof -
  have "blockMins (buildFlight dateOf idx row) = block_minutes row"
    by (rule buildFlight_blockMins)
  then show ?thesis
    by (simp add: buildFlight_def Let_def display_start_def display_end_def
        date_or_first_present split: option.split)
qed

lemma buildFlight_sched:
  "stdSched (buildFlight dateOf idx row) = parseDate dateOf (std_sched_nz row)"
  "staSched (buildFlight dateOf idx row) = parseDate dateOf (sta_sched_nz row)"
  "flight_id (buildFlight dateOf idx row) = idx"
  by (simp_all add: buildFlight_def Let_def)

lemma enumerate_as_map: "enumerate 0 rows = map (\<lambda>i. (i, rows ! i)) [0..<length rows]"
  by (rule nth_equalityI) (simp_all add: nth_enumerate_eq)

lemma kept_iff_display_start:
  "(stdEst (buildFlight dateOf idx row) \<noteq> None \<and> staEst (buildFlight dateOf idx row) \<noteq> None)
     \<longleftrightarrow> display_start dateOf row \<noteq> None"
  by (auto simp: buildFlight_stdEst buildFlight_staEst split: option.splits)

lemma buildFlightsFromRows_eq:
  "buildFlightsFromRows dateOf rows =
     map (\<lambda>i. buildFlight dateOf i (rows ! i))
       (filter (\<lambda>i. display_start dateOf (rows ! i) \<noteq> None) [0..<length rows])"
proof -
  have "filter (\<lambda>i. stdEst (buildFlight dateOf i (rows ! i)) \<noteq> None
                   \<and> staEst (buildFlight dateOf i (rows ! i)) \<noteq> None) [0..<length rows]
        = filter (\<lambda>i. display_start dateOf (rows ! i) \<noteq> None) [0..<length rows]"
    by (rule filter_cong [OF refl]) (rule kept_iff_display_start)
  then show ?thesis
    by (simp only: buildFlightsFromRows_def enumerate_as_map filter_map comp_def
        map_map prod.case)
qed

lemma buildFlightsFromRows_mem:
  assumes "f \<in> set (buildFlightsFromRows dateOf rows)"
  shows "flight_id f < length rows \<and> f = buildFlight dateOf (flight_id f) (rows ! flight_id f)
         \<and> display_start dateOf (rows ! flight_id f) \<noteq> None"
  using assms by (auto simp: buildFlightsFromRows_eq buildFlight_sched)
text \<open>
  Claim C1. For every flight record the resolver picks the display start and the display
  end separately by the precedence actual, estimated, scheduled, the first one present
  winning. When no end is present and a start is, the end is the start plus the block
  minutes; the block minutes are 60 when the field is absent or is not a number. For a
  record with only a scheduled pair the display start and end are the scheduled start
  and end. Every flight of the result is built in this way from the row of its index.
\<close>

theorem time_resolver_precedence:
  "stdEst (buildFlight dateOf idx row) = display_start dateOf row
   \<and> staEst (buildFlight dateOf idx row) =
       (case display_end dateOf row of
          Some e \<Rightarrow> Some e
        | None \<Rightarrow> (case display_start dateOf row of
                     Some s \<Rightarrow> Some (s + block_minutes row * 60000)
                   | None \<Rightarrow> None))
   \<and> ((block_mins row = None \<or> (\<exists>b. block_mins row = Some b \<and> parseInt b = None))
         \<longrightarrow> block_minutes row = 60)
   \<and> (parseDate dateOf (dep_actual_nz row) = None \<and> parseDate dateOf (std_nz row) = None
        \<and> parseDate dateOf (arr_actual_nz row) = None \<and> parseDate dateOf (sta_nz row) = None
        \<and> parseDate dateOf (std_sched_nz row) = Some s0
        \<and> parseDate dateOf (sta_sched_nz row) = Some e0
       \<longrightarrow> stdEst (buildFlight dateOf idx row) = Some s0
           \<and> staEst (buildFlight dateOf idx row) = Some e0
           \<and> stdSched (buildFlight dateOf idx row) = Some s0
           \<and> staSched (buildFlight dateOf idx row) = Some e0)
   \<and> (f \<in> set (buildFlightsFromRows dateOf rows)
       \<longrightarrow> flight_id f < length rows
           \<and> f = buildFlight dateOf (flight_id f) (rows ! flight_id f))"
proof -
  have blk: "(block_mins row = None \<or> (\<exists>b. block_mins row = Some b \<and> parseInt b = None))
         \<longrightarrow> block_minutes row = 60"
    by (auto simp: block_minutes_def)
  have sched: "parseDate dateOf (dep_actual_nz row) = None \<and> parseDate dateOf (std_nz row) = None
        \<and> parseDate dateOf (arr_actual_nz row) = None \<and> parseDate dateOf (sta_nz row) = None
        \<and> parseDate dateOf (std_sched_nz row) = Some s0
        \<and> parseDate dateOf (sta_sched_nz row) = Some e0
       \<longrightarrow> stdEst (buildFlight dateOf idx row) = Some s0
           \<and> staEst (buildFlight dateOf idx row) = Some e0
           \<and> stdSched (buildFlight dateOf idx row) = Some s0
           \<and> staSched (buildFlight dateOf idx row) = Some e0"
    by (simp add: buildFlight_stdEst buildFlight_staEst buildFlight_sched
        display_start_def display_end_def)
  show ?thesis
    using blk sched buildFlight_stdEst [of dateOf idx row]
      buildFlight_staEst [of dateOf idx row] buildFlightsFromRows_mem [of f dateOf rows]
    by blast
qed

theorem time_resolver_precedence_witness:
  "stdEst (buildFlight example_dateOf 0 row_actual_dep) = Some 1765181400000
   \<and> staEst (buildFlight example_dateOf 0 row_actual_dep) = Some (1765181400000 + 60 * 60000)
   \<and> block_minutes row_actual_dep = 60
   \<and> stdEst (buildFlight example_dateOf 0 row_sched_only) = Some 1765180800000
   \<and> staEst (buildFlight example_dateOf 0 row_sched_only) = Some 1765186200000
   \<and> buildFlight example_dateOf 0 row_sched_only
       \<in> set (buildFlightsFromRows example_dateOf [row_sched_only])"
proof -
  have p: "parseInt ''n/a'' = None"
    by (simp add: parseInt_def is_space_def is_digit_def)
  have m: "buildFlight example_dateOf 0 row_sched_only
       \<in> set (buildFlightsFromRows example_dateOf [row_sched_only])"
    by (simp add: buildFlightsFromRows_eq display_start_def parseDate_def example_dateOf_def
        row_sched_only_def blank_row_def)
  show ?thesis
    using p m
      time_resolver_precedence [of example_dateOf 0 row_actual_dep 0 0
        "buildFlight example_dateOf 0 row_sched_only" "[row_sched_only]"]
      time_resolver_precedence [of example_dateOf 0 row_sched_only 1765180800000 1765186200000
        "buildFlight example_dateOf 0 row_sched_only" "[row_sched_only]"]
    by (simp add: display_start_def display_end_def parseDate_def example_dateOf_def
        row_actual_dep_def row_sched_only_def blank_row_def)
qed

text \<open>
  Claim C2, as amended. A flight is excluded from the active set exactly when it has no
  resolvable display start: the result holds, in the order of the rows, the flight of
  every row with a display start and of no other row. Every retained flight has both a
  display start and a display end, the end being synthesised where needed. The result
  is always a list; nothing is raised for a dropped row.
\<close>

theorem flights_retained_iff_display_start:
  "buildFlightsFromRows dateOf rows =
     map (\<lambda>i. buildFlight dateOf i (rows ! i))
       (filter (\<lambda>i. display_start dateOf (rows ! i) \<noteq> None) [0..<length rows])
   \<and> (\<forall>f \<in> set (buildFlightsFromRows dateOf rows). stdEst f \<noteq> None \<and> staEst f \<noteq> None)"
proof -
  have "\<forall>f \<in> set (buildFlightsFromRows dateOf rows). stdEst f \<noteq> None \<and> staEst f \<noteq> None"
    by (simp add: buildFlightsFromRows_def)
  then show ?thesis
    using buildFlightsFromRows_eq [of dateOf rows] by blast
qed

theorem flights_retained_iff_display_start_witness:
  "buildFlightsFromRows example_dateOf [row_arrival_only, row_actual_dep] =
     [buildFlight example_dateOf 1 row_actual_dep]
   \<and> stdEst (buildFlight example_dateOf 1 row_actual_dep) \<noteq> None
   \<and> staEst (buildFlight example_dateOf 1 row_actual_dep) \<noteq> None"
  using flights_retained_iff_display_start [of example_dateOf "[row_arrival_only, row_actual_dep]"]
  by (simp add: display_start_def parseDate_def example_dateOf_def
      row_actual_dep_def row_arrival_only_def blank_row_def)

text \<open>
  Claim C2 as stated fails: a row whose only time is an estimated arrival has a
  resolvable display end, and its flight is dropped.
\<close>

theorem arrival_only_flight_dropped:
  "display_end example_dateOf row_arrival_only = Some 1765186200000
   \<and> staEst (buildFlight example_dateOf 0 row_arrival_only) = Some 1765186200000
   \<and> buildFlightsFromRows example_dateOf [row_arrival_only] = []"
  by (simp add: buildFlightsFromRows_def buildFlight_def Let_def display_end_def
      parseDate_def date_or_def example_dateOf_def row_arrival_only_def blank_row_def)

section \<open>Timeline window and axis\<close>
























text \<open>
  Across a change of the offset the axis loop does not give every whole local hour:
  from 01:00 of summer time on 5 April 2026 the ticks are at 01:00 and 02:00 of summer
  time, then at 03:00 and 04:00 of standard time, two hours after the tick before it;
  the whole hour 02:00 of standard time (14:00Z) has no tick.
\<close>

lemma hour_ticks_offset_change:
  "hour_ticks auckland_zone 1775304000000 1775318400000
     = Some [1775304000000, 1775307600000, 1775314800000, 1775318400000]
   \<and> localOf auckland_zone 1775311200000 mod 3600000 = 0
   \<and> start_of_hour auckland_zone 1775304000000 = 1775304000000"
  by (simp add: hour_ticks.simps next_hour_def start_of_hour_def auckland_zone_def)




section \<open>Passenger classifier\<close>

lemma raw_status_absent:
  assumes "\<forall>k \<in> set status_keys. \<not> truthy (field p k)"
  shows "raw_status p = []"
  using assms by (simp add: raw_status_def status_keys_def toUpperCase_def)
text \<open>
  Claim C4. For every passenger record the classification is exactly one of BOOKED,
  CHECKED, BOARDED and FLOWN. FLOWN is tested first: a flown flag, or a status text
  that contains FLOWN or is FLWN, gives FLOWN whatever else the record holds. The
  boolean flags go before the free text: short of FLOWN, a boarded flag gives BOARDED
  and, short of that, a checked-in flag gives CHECKED, whatever the status text. A
  record with no flag and an empty or absent status text is BOOKED.
\<close>

theorem classifyPaxStatus_priority:
  "classifyPaxStatus p \<in> {''BOOKED'', ''CHECKED'', ''BOARDED'', ''FLOWN''}
   \<and> (flag_set p ''Flown'' ''flown'' \<or> says_flown p \<longrightarrow> classifyPaxStatus p = ''FLOWN'')
   \<and> (\<not> flag_set p ''Flown'' ''flown'' \<and> \<not> says_flown p \<and> flag_set p ''Boarded'' ''boarded''
        \<longrightarrow> classifyPaxStatus p = ''BOARDED'')
   \<and> (\<not> flag_set p ''Flown'' ''flown'' \<and> \<not> says_flown p \<and> \<not> flag_set p ''Boarded'' ''boarded''
        \<and> flag_set p ''CheckedIn'' ''checkedIn''
        \<longrightarrow> classifyPaxStatus p = ''CHECKED'')
   \<and> (\<not> flag_set p ''Flown'' ''flown'' \<and> \<not> flag_set p ''Boarded'' ''boarded''
        \<and> \<not> flag_set p ''CheckedIn'' ''checkedIn''
        \<and> (\<forall>k \<in> set status_keys. \<not> truthy (field p k))
        \<longrightarrow> classifyPaxStatus p = ''BOOKED'')"
proof -
  have range: "classifyPaxStatus p \<in> {''BOOKED'', ''CHECKED'', ''BOARDED'', ''FLOWN''}"
    by (simp add: classifyPaxStatus_def Let_def)
  have flown: "flag_set p ''Flown'' ''flown'' \<or> says_flown p \<longrightarrow> classifyPaxStatus p = ''FLOWN''"
    by (auto simp: classifyPaxStatus_def Let_def flag_set_def says_flown_def)
  have boarded: "\<not> flag_set p ''Flown'' ''flown'' \<and> \<not> says_flown p
        \<and> flag_set p ''Boarded'' ''boarded'' \<longrightarrow> classifyPaxStatus p = ''BOARDED''"
    by (auto simp: classifyPaxStatus_def Let_def flag_set_def says_flown_def)
  have checked: "\<not> flag_set p ''Flown'' ''flown'' \<and> \<not> says_flown p
        \<and> \<not> flag_set p ''Boarded'' ''boarded'' \<and> flag_set p ''CheckedIn'' ''checkedIn''
        \<longrightarrow> classifyPaxStatus p = ''CHECKED''"
    by (auto simp: classifyPaxStatus_def Let_def flag_set_def says_flown_def)
  have booked: "\<not> flag_set p ''Flown'' ''flown'' \<and> \<not> flag_set p ''Boarded'' ''boarded''
        \<and> \<not> flag_set p ''CheckedIn'' ''checkedIn''
        \<and> (\<forall>k \<in> set status_keys. \<not> truthy (field p k))
        \<longrightarrow> classifyPaxStatus p = ''BOOKED''"
  proof (intro impI)
    assume a: "\<not> flag_set p ''Flown'' ''flown'' \<and> \<not> flag_set p ''Boarded'' ''boarded''
        \<and> \<not> flag_set p ''CheckedIn'' ''checkedIn''
        \<and> (\<forall>k \<in> set status_keys. \<not> truthy (field p k))"
    then have "raw_status p = []"
      by (simp add: raw_status_absent)
    with a show "classifyPaxStatus p = ''BOOKED''"
      by (simp add: classifyPaxStatus_def Let_def flag_set_def)
  qed
  from range flown boarded checked booked show ?thesis
    by blast
qed

theorem classifyPaxStatus_priority_witness:
  "classifyPaxStatus [(''flown'', JBool True), (''status'', JStr ''BOOKED'')] = ''FLOWN''
   \<and> classifyPaxStatus [(''status'', JStr ''BOARDED FLOWN'')] = ''FLOWN''
   \<and> classifyPaxStatus [(''Boarded'', JBool True), (''Status'', JStr ''Checked in'')] = ''BOARDED''
   \<and> classifyPaxStatus [(''checkedIn'', JBool True), (''Status'', JStr ''Boarding'')] = ''CHECKED''
   \<and> classifyPaxStatus [(''Surname'', JStr ''Smith''), (''Status'', JStr [])] = ''BOOKED''"
proof -
  have u: "toUpperCase ''BOOKED'' = ''BOOKED''"
    "toUpperCase ''BOARDED FLOWN'' = ''BOARDED FLOWN''"
    "toUpperCase ''Checked in'' = ''CHECKED IN''"
    "toUpperCase ''Boarding'' = ''BOARDING''"
    by (simp_all add: toUpperCase_def char_upper_def upper_tab_def)
  show ?thesis
    using
      classifyPaxStatus_priority [of "[(''flown'', JBool True), (''status'', JStr ''BOOKED'')]"]
      classifyPaxStatus_priority [of "[(''status'', JStr ''BOARDED FLOWN'')]"]
      classifyPaxStatus_priority
        [of "[(''Boarded'', JBool True), (''Status'', JStr ''Checked in'')]"]
      classifyPaxStatus_priority
        [of "[(''checkedIn'', JBool True), (''Status'', JStr ''Boarding'')]"]
      classifyPaxStatus_priority [of "[(''Surname'', JStr ''Smith''), (''Status'', JStr [])]"]
    by (simp add: flag_set_def says_flown_def raw_status_def field_def status_keys_def u)
qed

section \<open>Seat map occupancy\<close>







text \<open>
  A service request that cannot be read stops the seat from being drawn even after the
  code of an unaccompanied minor has been found: the test for the wheelchair icon goes
  through the list once more and reaches it.
\<close>

lemma occupied_seat_unreadable_request:
  "occupied_seat [(''PassengerType'', JStr ''AD''),
                  (''Ssrs'', JArr [JObj [(''Code'', JStr ''UMNR'')], JNull])] = Inl TypeError"
  by (simp add: occupied_seat_def seat_class_of_def paxType_def ssrsForSeat_def field_def
      hasUmnrSSR_def hasSpecialSSR_def hasWheelchairSSR_def code_test_def ssr_code_def
      get_prop_def val_toUpperCase_def toUpperCase_def char_upper_def upper_tab_def
      SSR_SPECIAL_def)



section \<open>Delay ledger: code validation\<close>

lemma space_not_digit: "is_space c \<Longrightarrow> \<not> is_digit c"
  by (auto simp: is_space_def is_digit_def)

lemma filter_digit_dropWhile: "filter is_digit (dropWhile is_space s) = filter is_digit s"
  by (induction s) (simp_all add: space_not_digit)

lemma filter_digit_trim: "filter is_digit (trim s) = filter is_digit s"
proof -
  have "filter is_digit (trim s) = rev (filter is_digit (dropWhile is_space (rev (dropWhile is_space s))))"
    by (simp add: trim_def rev_filter)
  also have "\<dots> = rev (filter is_digit (rev (dropWhile is_space s)))"
    by (simp only: filter_digit_dropWhile)
  also have "\<dots> = filter is_digit s"
    by (simp add: rev_filter [symmetric] filter_digit_dropWhile)
  finally show ?thesis .
qed

lemma normalise_code_trim: "normalise_code (trim s) = normalise_code s"
  by (simp add: normalise_code_def filter_digit_trim)

lemma delay_step_surviving:
  "delay_step arr (ds, us) tr =
     (case surviving tr of
        None \<Rightarrow> (ds, us)
      | Some r \<Rightarrow> if known_code (fst r) then (ds @ [enrich arr r], us)
                  else (ds, add_code us (fst r)))"
proof (cases "codeInput tr")
  case None
  then show ?thesis by (simp add: delay_step_def surviving_def)
next
  case cv: (Some cv)
  show ?thesis
  proof (cases "minsInput tr")
    case None
    with cv show ?thesis by (simp add: delay_step_def surviving_def)
  next
    case mv: (Some mv)
    have p: "parseInt (if mv = [] then ''0'' else mv) = None \<Longrightarrow> parseInt mv = None"
      "\<And>m. 0 < m \<Longrightarrow> parseInt (if mv = [] then ''0'' else mv) = Some m \<longleftrightarrow> parseInt mv = Some m"
      by (cases "mv = []"; simp add: parseInt_zero parseInt_Nil)+
    have e: "trim cv = [] \<Longrightarrow> filter is_digit cv = []"
      using filter_digit_trim [of cv] by simp
    show ?thesis
    proof (cases "parseInt (if mv = [] then ''0'' else mv)")
      case None
      with cv mv p show ?thesis
        by (simp add: delay_step_def surviving_def Let_def)
    next
      case (Some m)
      show ?thesis
      proof (cases "0 < m")
        case False
        then have "surviving tr = None"
          using cv mv Some
          by (cases "mv = []") (auto simp: surviving_def parseInt_Nil)
        with cv mv Some False show ?thesis
          by (simp add: delay_step_def Let_def)
      next
        case True
        with Some p have pm: "parseInt mv = Some m" by simp
        show ?thesis
        proof (cases "filter is_digit cv = []")
          case True
          with cv mv Some pm show ?thesis
            by (simp add: delay_step_def surviving_def Let_def filter_digit_trim)
        next
          case False
          with e have ne: "trim cv \<noteq> []" by blast
          from False cv mv pm \<open>0 < m\<close>
          have sv: "surviving tr = Some (normalise_code cv, m,
                     (case remarkInput tr of None \<Rightarrow> [] | Some rv \<Rightarrow> trim rv))"
            by (simp add: surviving_def)
          show ?thesis
            using cv mv Some \<open>0 < m\<close> False ne
            by (simp add: sv delay_step_def Let_def filter_digit_trim normalise_code_trim
                known_code_def enrich_def add_code_def split: option.split)
        qed
      qed
    qed
  qed
qed

lemma collect_fold:
  "foldl (delay_step arr) (ds, us) rows =
     (ds @ map (enrich arr) (filter (\<lambda>r. known_code (fst r)) (List.map_filter surviving rows)),
      foldl add_code us
        (map fst (filter (\<lambda>r. \<not> known_code (fst r)) (List.map_filter surviving rows))))"
proof (induction rows arbitrary: ds us)
  case Nil
  then show ?case by simp
next
  case (Cons tr rows)
  show ?case
    by (cases "surviving tr") (simp_all add: delay_step_surviving Cons.IH)
qed

lemma set_add_codes: "set (foldl add_code us cs) = set us \<union> set cs"
  by (induction cs arbitrary: us) (auto simp: add_code_def)

lemma distinct_add_codes: "distinct us \<Longrightarrow> distinct (foldl add_code us cs)"
  by (induction cs arbitrary: us) (auto simp: add_code_def)

lemma add_codes_Nil_iff: "foldl add_code [] cs = [] \<longleftrightarrow> cs = []"
proof -
  have "set (foldl add_code [] cs) = set cs"
    by (simp add: set_add_codes)
  then show ?thesis
    by (metis set_empty)
qed

lemma collectDelaysFromModal_eq:
  "collectDelaysFromModal arr rows =
     (if \<exists>r \<in> set (List.map_filter surviving rows). \<not> known_code (fst r)
      then Inl (foldl add_code []
             (map fst (filter (\<lambda>r. \<not> known_code (fst r)) (List.map_filter surviving rows))))
      else Inr (map (enrich arr) (List.map_filter surviving rows)))"
proof -
  let ?sv = "List.map_filter surviving rows"
  have a: "(filter (\<lambda>r. \<not> known_code (fst r)) ?sv = []) \<longleftrightarrow> (\<forall>r \<in> set ?sv. known_code (fst r))"
    by (auto simp: filter_empty_conv)
  have b: "\<forall>r \<in> set ?sv. known_code (fst r) \<Longrightarrow> filter (\<lambda>r. known_code (fst r)) ?sv = ?sv"
    by simp
  show ?thesis
    using a b
    by (auto simp: collectDelaysFromModal_def collect_fold add_codes_Nil_iff)
qed

lemma surviving_code:
  assumes "surviving tr = Some (c, m, rm)"
  shows "list_all is_digit c \<and> 2 \<le> length c \<and> 0 < m
     \<and> (\<exists>cv. codeInput tr = Some cv \<and> c = normalise_code cv)"
proof -
  from assms obtain cv mv where cv: "codeInput tr = Some cv" and mv: "minsInput tr = Some mv"
    by (auto simp: surviving_def split: option.splits)
  with assms have f: "filter is_digit cv \<noteq> []" and c: "c = normalise_code cv" and m: "0 < m"
    by (auto simp: surviving_def split: option.splits if_splits)
  have "list_all is_digit (filter is_digit cv)"
    by (simp add: list_all_iff)
  moreover from f have "1 \<le> length (filter is_digit cv)"
    by (cases "filter is_digit cv") simp_all
  ultimately have "list_all is_digit c \<and> 2 \<le> length c"
    unfolding c normalise_code_def Let_def
    by (auto simp: is_digit_def)
  with cv c m show ?thesis by blast
qed

lemma surviving_None_iff:
  "surviving tr = None \<longleftrightarrow> no_digit_code tr \<or> no_positive_minutes tr"
  by (auto simp: surviving_def no_digit_code_def no_positive_minutes_def split: option.splits)

text \<open>
  Claim C3, as amended. A delay row is discarded when its code has no digit or its
  minutes are missing, not a number, zero or negative: not only a row with neither a
  code nor positive minutes, but also a row with only one of the two, and silently. Every
  other row survives; its code is then the digits alone, a single digit padded to two
  (\<open>1\<close> becomes \<open>01\<close>). If the code of any surviving row is not in the reference table the
  whole batch is rejected: the result carries no entry, and the codes reported are
  exactly the unknown codes of the surviving rows, each once. Otherwise every surviving
  row is accepted, in order, with the identifier and the description that the table has
  for its code.
\<close>

theorem delay_batch_validation:
  "(\<forall>r \<in> set (List.map_filter surviving rows). list_all is_digit (fst r) \<and> 2 \<le> length (fst r))
   \<and> (surviving tr = None \<longleftrightarrow> no_digit_code tr \<or> no_positive_minutes tr)
   \<and> (no_digit_code tr \<or> no_positive_minutes tr \<longrightarrow> delay_step arr acc tr = acc)
   \<and> (no_code tr \<and> no_positive_minutes tr
        \<longrightarrow> surviving tr = None \<and> delay_step arr acc tr = acc)
   \<and> (surviving tr = Some (c', m', rm')
        \<longrightarrow> (\<exists>cv. codeInput tr = Some cv \<and> c' = normalise_code cv) \<and> 0 < m'
            \<and> delay_step arr (ds, us) tr =
                (if known_code c' then (ds @ [enrich arr (c', m', rm')], us)
                 else (ds, add_code us c')))
   \<and> ((\<exists>r \<in> set (List.map_filter surviving rows). \<not> known_code (fst r))
        \<longrightarrow> (\<exists>us. collectDelaysFromModal arr rows = Inl us \<and> distinct us
              \<and> set us = {c. \<exists>r \<in> set (List.map_filter surviving rows).
                                fst r = c \<and> \<not> known_code c}))
   \<and> ((\<forall>r \<in> set (List.map_filter surviving rows). known_code (fst r))
        \<longrightarrow> collectDelaysFromModal arr rows
              = Inr (map (enrich arr) (List.map_filter surviving rows)))
   \<and> (map_of DELAY_CODE_META c = Some meta
        \<longrightarrow> enrich arr (c, m, rm)
              = \<lparr> code = c, delayCodeId = meta_id meta, delayMinutes = m,
                  description = meta_description meta, remark = rm, isArrival = arr \<rparr>)"
proof -
  let ?sv = "List.map_filter surviving rows"
  have codes: "\<forall>r \<in> set ?sv. list_all is_digit (fst r) \<and> 2 \<le> length (fst r)"
  proof
    fix r
    assume "r \<in> set ?sv"
    then obtain t where "surviving t = Some r"
      by (auto simp: map_filter_def)
    then show "list_all is_digit (fst r) \<and> 2 \<le> length (fst r)"
      using surviving_code [of t "fst r" "fst (snd r)" "snd (snd r)"] by simp
  qed
  have iff: "surviving tr = None \<longleftrightarrow> no_digit_code tr \<or> no_positive_minutes tr"
    by (rule surviving_None_iff)
  have gone: "no_digit_code tr \<or> no_positive_minutes tr \<longrightarrow> delay_step arr acc tr = acc"
  proof (intro impI)
    assume "no_digit_code tr \<or> no_positive_minutes tr"
    then have "surviving tr = None"
      by (simp only: surviving_None_iff)
    then show "delay_step arr acc tr = acc"
      using delay_step_surviving [of arr "fst acc" "snd acc" tr] by simp
  qed
  have drop: "no_code tr \<and> no_positive_minutes tr
        \<longrightarrow> surviving tr = None \<and> delay_step arr acc tr = acc"
  proof (intro impI)
    assume "no_code tr \<and> no_positive_minutes tr"
    then have "surviving tr = None"
      by (auto simp: surviving_def no_positive_minutes_def split: option.splits)
    then show "surviving tr = None \<and> delay_step arr acc tr = acc"
      using delay_step_surviving [of arr "fst acc" "snd acc" tr] by simp
  qed
  have kept: "surviving tr = Some (c', m', rm')
        \<longrightarrow> (\<exists>cv. codeInput tr = Some cv \<and> c' = normalise_code cv) \<and> 0 < m'
            \<and> delay_step arr (ds, us) tr =
                (if known_code c' then (ds @ [enrich arr (c', m', rm')], us)
                 else (ds, add_code us c'))"
  proof (intro impI)
    assume sv: "surviving tr = Some (c', m', rm')"
    then have "(\<exists>cv. codeInput tr = Some cv \<and> c' = normalise_code cv) \<and> 0 < m'"
      using surviving_code [of tr c' m' rm'] by blast
    moreover have "delay_step arr (ds, us) tr =
                (if known_code c' then (ds @ [enrich arr (c', m', rm')], us)
                 else (ds, add_code us c'))"
      by (simp add: delay_step_surviving sv)
    ultimately show "(\<exists>cv. codeInput tr = Some cv \<and> c' = normalise_code cv) \<and> 0 < m'
            \<and> delay_step arr (ds, us) tr =
                (if known_code c' then (ds @ [enrich arr (c', m', rm')], us)
                 else (ds, add_code us c'))"
      by simp
  qed
  have rej: "(\<exists>r \<in> set ?sv. \<not> known_code (fst r))
        \<longrightarrow> (\<exists>us. collectDelaysFromModal arr rows = Inl us \<and> distinct us
              \<and> set us = {c. \<exists>r \<in> set ?sv. fst r = c \<and> \<not> known_code c})"
  proof (intro impI)
    assume u: "\<exists>r \<in> set ?sv. \<not> known_code (fst r)"
    let ?us = "foldl add_code [] (map fst (filter (\<lambda>r. \<not> known_code (fst r)) ?sv))"
    have "collectDelaysFromModal arr rows = Inl ?us"
      using u by (simp add: collectDelaysFromModal_eq)
    moreover have "distinct ?us"
      by (rule distinct_add_codes) simp
    moreover have "set ?us = {c. \<exists>r \<in> set ?sv. fst r = c \<and> \<not> known_code c}"
      by (auto simp: set_add_codes)
    ultimately show "\<exists>us. collectDelaysFromModal arr rows = Inl us \<and> distinct us
              \<and> set us = {c. \<exists>r \<in> set ?sv. fst r = c \<and> \<not> known_code c}"
      by blast
  qed
  have acc: "(\<forall>r \<in> set ?sv. known_code (fst r))
        \<longrightarrow> collectDelaysFromModal arr rows = Inr (map (enrich arr) ?sv)"
    by (simp add: collectDelaysFromModal_eq)
  have enr: "map_of DELAY_CODE_META c = Some meta
        \<longrightarrow> enrich arr (c, m, rm)
              = \<lparr> code = c, delayCodeId = meta_id meta, delayMinutes = m,
                  description = meta_description meta, remark = rm, isArrival = arr \<rparr>"
    by (simp add: enrich_def)
  show ?thesis
    using codes iff gone drop kept rej acc enr
    by (intro conjI)
qed

theorem delay_batch_validation_witness:
  "collectDelaysFromModal False
     [\<lparr> codeInput = Some ''1'', minsInput = Some ''20'', remarkInput = Some [] \<rparr>,
      \<lparr> codeInput = Some ''999'', minsInput = Some ''5'', remarkInput = Some [] \<rparr>]
     = Inl [''999'']
   \<and> collectDelaysFromModal False
       [\<lparr> codeInput = Some ''1'', minsInput = Some ''20'', remarkInput = Some [] \<rparr>]
     = Inr [\<lparr> code = ''01'', delayCodeId = 94, delayMinutes = 20,
               description = ''Planned schedule deviation for regular flights'',
               remark = [], isArrival = False \<rparr>]
   \<and> delay_step False ([], []) \<lparr> codeInput = Some '' '', minsInput = Some [], remarkInput = None \<rparr>
     = ([], [])
   \<and> delay_step False ([], []) \<lparr> codeInput = Some ''81'', minsInput = Some ''-5'', remarkInput = None \<rparr>
     = ([], [])"
proof -
  let ?r1 = "\<lparr> codeInput = Some ''1'', minsInput = Some ''20'', remarkInput = Some [] \<rparr>"
  let ?r2 = "\<lparr> codeInput = Some ''999'', minsInput = Some ''5'', remarkInput = Some [] \<rparr>"
  let ?r3 = "\<lparr> codeInput = Some '' '', minsInput = Some [], remarkInput = None \<rparr>"
  let ?r4 = "\<lparr> codeInput = Some ''81'', minsInput = Some ''-5'', remarkInput = None \<rparr>"
  have p: "parseInt ''20'' = Some 20" "parseInt ''5'' = Some 5"
    by (simp_all add: parseInt_def is_space_def is_digit_def digits_val_def digit_val_def)
  have s: "surviving ?r1 = Some (''01'', 20, [])" "surviving ?r2 = Some (''999'', 5, [])"
    by (simp_all add: surviving_def p normalise_code_def is_digit_def trim_def)
  have k: "map_of DELAY_CODE_META ''01''
       = Some \<lparr> meta_id = 94,
                 meta_description = ''Planned schedule deviation for regular flights'' \<rparr>"
    "\<not> known_code ''999''" "known_code ''01''"
    by (simp_all add: known_code_def DELAY_CODE_META_def)
  have n: "no_code ?r3 \<and> no_positive_minutes ?r3"
    by (simp add: no_code_def no_positive_minutes_def trim_def is_space_def parseInt_Nil)
  have one: "collectDelaysFromModal False [?r1, ?r2] = Inl [''999'']"
    by (simp add: collectDelaysFromModal_eq s k map_filter_simps add_code_def)
  have two: "collectDelaysFromModal False [?r1]
     = Inr [\<lparr> code = ''01'', delayCodeId = 94, delayMinutes = 20,
               description = ''Planned schedule deviation for regular flights'',
               remark = [], isArrival = False \<rparr>]"
    by (simp add: collectDelaysFromModal_eq s k map_filter_simps enrich_def)
  note d = delay_batch_validation [of "[?r1, ?r2]" ?r3 False "([], [])",
      THEN conjunct2, THEN conjunct2, THEN conjunct2, THEN conjunct1]
  from d n have "surviving ?r3 = None \<and> delay_step False ([], []) ?r3 = ([], [])"
    by (rule mp)
  then have three: "delay_step False ([], []) ?r3 = ([], [])"
    by (rule conjunct2)
  have "parseInt ''-5'' = Some (- 5)"
    by (simp add: parseInt_def is_space_def is_digit_def digits_val_def digit_val_def)
  then have m: "no_digit_code ?r4 \<or> no_positive_minutes ?r4"
    by (simp add: no_positive_minutes_def)
  note g = delay_batch_validation [of "[?r1, ?r2]" ?r4 False "([], [])",
      THEN conjunct2, THEN conjunct2, THEN conjunct1]
  from g m have four: "delay_step False ([], []) ?r4 = ([], [])"
    by (rule mp)
  from one two three four show ?thesis
    by blast
qed

text \<open>
  Claim C3 as stated fails: a row with a code and positive minutes, but no digit in the
  code, and a row with positive minutes and no code are both discarded silently; the
  batch is not rejected and nothing is reported, although neither row has "neither a
  code nor positive minutes".
\<close>

theorem row_with_code_or_minutes_discarded:
  "collectDelaysFromModal False
     [\<lparr> codeInput = Some ''XY'', minsInput = Some ''5'', remarkInput = Some [] \<rparr>] = Inr []
   \<and> collectDelaysFromModal False
     [\<lparr> codeInput = Some [], minsInput = Some ''20'', remarkInput = Some [] \<rparr>] = Inr []
   \<and> \<not> no_code \<lparr> codeInput = Some ''XY'', minsInput = Some ''5'', remarkInput = Some [] \<rparr>
   \<and> \<not> no_positive_minutes
         \<lparr> codeInput = Some ''XY'', minsInput = Some ''5'', remarkInput = Some [] \<rparr>
   \<and> \<not> no_positive_minutes
         \<lparr> codeInput = Some [], minsInput = Some ''20'', remarkInput = Some [] \<rparr>"
proof -
  have p: "parseInt ''20'' = Some 20" "parseInt ''5'' = Some 5"
    by (simp_all add: parseInt_def is_space_def is_digit_def digits_val_def digit_val_def)
  have t: "trim ''XY'' = ''XY''" "trim [] = []"
    by (simp_all add: trim_def is_space_def)
  show ?thesis
    by (simp add: collectDelaysFromModal_def delay_step_def Let_def p t is_digit_def
        no_code_def no_positive_minutes_def)
qed

text \<open>
  Claim C10. A delay row whose minutes are missing, not a number, zero or negative is
  discarded before its code is looked up: it leaves the accepted entries and the set
  of unknown codes as they were, so the result of the batch is the result of the batch
  without that row, whatever its code. A row with the unknown code 999 and zero
  minutes neither rejects the batch nor is reported.
\<close>

theorem non_positive_minutes_row_dropped:
  assumes "no_positive_minutes tr"
  shows "delay_step arr acc tr = acc
     \<and> collectDelaysFromModal arr (xs @ tr # ys) = collectDelaysFromModal arr (xs @ ys)"
proof -
  from assms have "surviving tr = None"
    by (auto simp: surviving_def no_positive_minutes_def split: option.splits)
  then have "delay_step arr a tr = a" for a
    using delay_step_surviving [of arr "fst a" "snd a" tr] by simp
  then show ?thesis
    by (simp add: collectDelaysFromModal_def)
qed

theorem non_positive_minutes_row_dropped_witness:
  "no_positive_minutes \<lparr> codeInput = Some ''999'', minsInput = Some ''0'', remarkInput = None \<rparr>
   \<and> collectDelaysFromModal True
       [\<lparr> codeInput = Some ''999'', minsInput = Some ''0'', remarkInput = None \<rparr>] = Inr []
   \<and> collectDelaysFromModal True
       [\<lparr> codeInput = Some ''999'', minsInput = Some ''0'', remarkInput = None \<rparr>]
      = collectDelaysFromModal True []"
proof -
  let ?tr = "\<lparr> codeInput = Some ''999'', minsInput = Some ''0'', remarkInput = None \<rparr>"
  have h: "no_positive_minutes ?tr"
    by (simp add: no_positive_minutes_def parseInt_zero)
  have e: "collectDelaysFromModal True [] = Inr []"
    by (simp add: collectDelaysFromModal_def)
  from non_positive_minutes_row_dropped [OF h, of True "([], [])" "[]" "[]"] h e
  show ?thesis
    by simp
qed

section \<open>Delay ledger: required delay\<close>

text \<open>
  Claim C8 does not hold of \<^verbatim>\<open>updateDelayArr\<close>: the function tests the absolute value
  of the difference against 15 minutes, but writes the signed difference to the
  required-delay element. With a scheduled arrival at 10:00 and an entered ETA of 09:30
  the delay section is shown and the required delay reads -30, where the claim gives
  30; an ETA of 10:30 reads 30. The departure function never shows a negative number:
  off-blocks 20 minutes after a scheduled departure at 10:00 reads 20, 10 minutes after
  reads 0, and 30 minutes before reads 0. Both functions put the entered time on the
  local day of the scheduled time and read no date: an ETA of 00:10 against a scheduled
  arrival at 23:50 reads -1420, and off-blocks at 00:10 against a scheduled departure at
  23:50 reads 0.
\<close>

theorem early_arrival_required_negative:
  "updateDelayArr utc_zone (Some 1765188000000) (Some ''09:30'')
     = \<lparr> sectionShown = True, delayRequired = - 30 \<rparr>
   \<and> \<bar>setHours utc_zone 1765188000000 9 30 - 1765188000000\<bar> = 30 * 60000
   \<and> updateDelayArr utc_zone (Some 1765188000000) (Some ''10:30'')
     = \<lparr> sectionShown = True, delayRequired = 30 \<rparr>
   \<and> updateDelayDep utc_zone (Some 1765188000000)
       (Some \<lparr> el_value = ''10:20'', el_attr = None \<rparr>)
     = \<lparr> sectionShown = True, delayRequired = 20 \<rparr>
   \<and> updateDelayDep utc_zone (Some 1765188000000)
       (Some \<lparr> el_value = ''10:10'', el_attr = None \<rparr>)
     = \<lparr> sectionShown = False, delayRequired = 0 \<rparr>
   \<and> updateDelayDep utc_zone (Some 1765188000000)
       (Some \<lparr> el_value = ''09:30'', el_attr = None \<rparr>)
     = \<lparr> sectionShown = False, delayRequired = 0 \<rparr>
   \<and> updateDelayArr utc_zone (Some 1765237800000) (Some ''00:10'')
     = \<lparr> sectionShown = True, delayRequired = - 1420 \<rparr>
   \<and> updateDelayDep utc_zone (Some 1765237800000)
       (Some \<lparr> el_value = ''00:10'', el_attr = None \<rparr>)
     = \<lparr> sectionShown = False, delayRequired = 0 \<rparr>"
  by code_simp

section \<open>Delay ledger: composed timestamps\<close>

text \<open>
  Claim C7, evaluated where the code departs from it. Arrival with the date
  2025-12-08, landing 23:50 and on-chocks 00:05: 24 hours are subtracted from the
  landing minutes, and the text composed from the -10 minutes that result is
  \<open>2025-12-08T-1:-10\<close>, which names no instant of the previous day. Departure with
  off-blocks 23:55 and airborne 00:05: 24 hours are added, and the text composed is
  \<open>2025-12-08T24:05\<close>, on the entered day with hour 24.
\<close>

theorem midnight_crossing_text:
  "map_option landing_local
     (collectTimeModalPayload (Some example_flight) (Some ''arr'') [] arr_inputs)
     = Some (Some ''2025-12-08T-1:-10'')
   \<and> map_option onblocks_local
     (collectTimeModalPayload (Some example_flight) (Some ''arr'') [] arr_inputs)
     = Some (Some ''2025-12-08T00:05'')
   \<and> landing_minutes (parseTimeToMinutes (Some ''23:50'')) (parseTimeToMinutes (Some ''00:05''))
     = Some (- 10)
   \<and> map_option airborne_local
     (collectTimeModalPayload (Some example_flight) (Some ''dep'') [] dep_inputs)
     = Some (Some ''2025-12-08T24:05'')
   \<and> map_option offblocks_local
     (collectTimeModalPayload (Some example_flight) (Some ''dep'') [] dep_inputs)
     = Some (Some ''2025-12-08T23:55'')
   \<and> airborne_minutes (parseTimeToMinutes (Some ''00:05'')) (parseTimeToMinutes (Some ''23:55''))
     = Some (23 * 60 + 55 + 10)"
  by code_simp

end
